theory Spec2Isabelle
  imports Complex_Main
begin

section \<open>Python values\<close>

text \<open>
  The pipeline passes JSON-like dictionaries between its stages. A Python value that
  can occur in them is a \<open>pyval\<close>; a \<open>dict\<close> is an association list, since
  Python dictionaries keep their keys in insertion order. Floats are modelled as exact
  rationals: the scores computed below are read as the real numbers the float
  expressions denote.
\<close>

datatype pyval =
    PNone
  | PBool bool
  | PInt int
  | PFloat rat
  | PStr string
  | PList "pyval list"
  | PDict "(string \<times> pyval) list"

type_synonym pydict = "(string \<times> pyval) list"

text \<open>\<^verbatim>\<open>d.get(k, default)\<close> on a dictionary.\<close>

definition dict_get :: "('k \<times> 'v) list \<Rightarrow> 'k \<Rightarrow> 'v \<Rightarrow> 'v" where
  "dict_get d k dflt = (case map_of d k of None \<Rightarrow> dflt | Some v \<Rightarrow> v)"

text \<open>
  \<^verbatim>\<open>d[k] = v\<close>: an existing key keeps its position and gets the new value, a new key
  is appended at the end.
\<close>

fun dict_set :: "'k \<Rightarrow> 'v \<Rightarrow> ('k \<times> 'v) list \<Rightarrow> ('k \<times> 'v) list" where
  "dict_set k v [] = [(k, v)]"
| "dict_set k v ((k', v') # kvs) =
     (if k = k' then (k, v) # kvs else (k', v') # dict_set k v kvs)"

section \<open>Rank fusion: \<open>RetrieverSummarizerAgent.hybrid_fusion\<close>\<close>

text \<open>
  One entry of a ranked input list, as \<open>bm25_search\<close> and \<open>vector_search\<close> build it:
  \<^verbatim>\<open>{"doc_id": ..., "score": ..., "source": ..., "retrieval_method": ...}\<close>.
\<close>

record search_hit =
  hit_doc_id :: string
  hit_score :: rat
  hit_source :: pyval
  hit_retrieval_method :: string

text \<open>
  A value of the working dictionary \<open>doc_scores\<close>: the key \<open>"source"\<close> is always
  present, \<open>"bm25_score"\<close> and \<open>"vector_score"\<close> only once they have been assigned.
\<close>

record score_entry =
  entry_source :: pyval
  entry_bm25_score :: "rat option"
  entry_vector_score :: "rat option"

text \<open>One dictionary of the returned list \<open>fused\<close>.\<close>

record fused_doc =
  doc_id :: string
  source :: pyval
  hybrid_score :: rat
  bm25_score :: rat
  vector_score :: rat

text \<open>\<^verbatim>\<open>1.0 / (60 + rank)\<close>\<close>

definition rrf_score :: "nat \<Rightarrow> rat" where
  "rrf_score rank = 1 / (60 + of_nat rank)"

text \<open>The dictionary literal \<^verbatim>\<open>{"source": result["source"]}\<close>: no score assigned yet.\<close>

definition new_entry :: "search_hit \<Rightarrow> score_entry" where
  "new_entry result =
     \<lparr>entry_source = hit_source result, entry_bm25_score = None, entry_vector_score = None\<rparr>"

text \<open>
  The body of the first loop:
  \<^verbatim>\<open>
  doc_scores[doc_id] = doc_scores.get(doc_id, {"source": result["source"]})
  doc_scores[doc_id]["bm25_score"] = 1.0 / (60 + rank)
  \<close>
\<close>

definition bm25_step :: "nat \<Rightarrow> search_hit \<Rightarrow> (string \<times> score_entry) list \<Rightarrow> (string \<times> score_entry) list" where
  "bm25_step rank result doc_scores =
     (let i = hit_doc_id result;
          e = dict_get doc_scores i (new_entry result);
          doc_scores1 = dict_set i e doc_scores
      in dict_set i (e\<lparr>entry_bm25_score := Some (rrf_score rank)\<rparr>) doc_scores1)"

text \<open>\<^verbatim>\<open>for rank, result in enumerate(bm25_results, start=1)\<close>, from the given rank on.\<close>

fun bm25_loop :: "nat \<Rightarrow> search_hit list \<Rightarrow> (string \<times> score_entry) list \<Rightarrow> (string \<times> score_entry) list" where
  "bm25_loop rank [] doc_scores = doc_scores"
| "bm25_loop rank (result # rest) doc_scores =
     bm25_loop (Suc rank) rest (bm25_step rank result doc_scores)"

text \<open>
  The body of the second loop:
  \<^verbatim>\<open>
  if doc_id not in doc_scores:
      doc_scores[doc_id] = {"source": result["source"]}
  doc_scores[doc_id]["vector_score"] = 1.0 / (60 + rank)
  \<close>
\<close>

definition vector_step :: "nat \<Rightarrow> search_hit \<Rightarrow> (string \<times> score_entry) list \<Rightarrow> (string \<times> score_entry) list" where
  "vector_step rank result doc_scores =
     (let i = hit_doc_id result;
          doc_scores1 =
            (if map_of doc_scores i = None
             then dict_set i (new_entry result) doc_scores
             else doc_scores);
          e = dict_get doc_scores1 i (new_entry result)
      in dict_set i (e\<lparr>entry_vector_score := Some (rrf_score rank)\<rparr>) doc_scores1)"

fun vector_loop :: "nat \<Rightarrow> search_hit list \<Rightarrow> (string \<times> score_entry) list \<Rightarrow> (string \<times> score_entry) list" where
  "vector_loop rank [] doc_scores = doc_scores"
| "vector_loop rank (result # rest) doc_scores =
     vector_loop (Suc rank) rest (vector_step rank result doc_scores)"

text \<open>
  One iteration of \<^verbatim>\<open>for doc_id, data in doc_scores.items()\<close>: a score that was never
  assigned reads as 0 (\<^verbatim>\<open>data.get("bm25_score", 0)\<close>).
\<close>

definition fuse_entry :: "rat \<Rightarrow> string \<times> score_entry \<Rightarrow> fused_doc" where
  "fuse_entry alpha kv =
     (let bm25 = (case entry_bm25_score (snd kv) of None \<Rightarrow> 0 | Some s \<Rightarrow> s);
          vector = (case entry_vector_score (snd kv) of None \<Rightarrow> 0 | Some s \<Rightarrow> s)
      in \<lparr>doc_id = fst kv, source = entry_source (snd kv),
          hybrid_score = alpha * bm25 + (1 - alpha) * vector,
          bm25_score = bm25, vector_score = vector\<rparr>)"

text \<open>The dictionary after both loops, and the list \<open>fused\<close> before it is sorted.\<close>

definition doc_scores_of :: "search_hit list \<Rightarrow> search_hit list \<Rightarrow> (string \<times> score_entry) list" where
  "doc_scores_of bm25_results vector_results =
     vector_loop 1 vector_results (bm25_loop 1 bm25_results [])"

definition fused_unsorted :: "search_hit list \<Rightarrow> search_hit list \<Rightarrow> rat \<Rightarrow> fused_doc list" where
  "fused_unsorted bm25_results vector_results alpha =
     map (fuse_entry alpha) (doc_scores_of bm25_results vector_results)"

text \<open>
  \<^verbatim>\<open>fused.sort(key=lambda x: x["hybrid_score"], reverse=True)\<close>. Python's sort is stable,
  also with \<open>reverse=True\<close>: elements with equal keys keep their original order. That is
  the stable insertion sort on the negated key.
\<close>

definition sort_reverse :: "('a \<Rightarrow> rat) \<Rightarrow> 'a list \<Rightarrow> 'a list" where
  "sort_reverse key xs = sort_key (\<lambda>x. - key x) xs"

definition hybrid_fusion :: "search_hit list \<Rightarrow> search_hit list \<Rightarrow> rat \<Rightarrow> fused_doc list" where
  "hybrid_fusion bm25_results vector_results alpha =
     sort_reverse hybrid_score (fused_unsorted bm25_results vector_results alpha)"

subsection \<open>Notions used to state the properties of fusion\<close>

text \<open>The identifiers of a ranked list, in rank order.\<close>

definition hit_ids :: "search_hit list \<Rightarrow> string list" where
  "hit_ids hits = map hit_doc_id hits"

text \<open>
  The elements of a list in the order of their first appearance, each once.
\<close>

fun first_seen :: "'a list \<Rightarrow> 'a list" where
  "first_seen [] = []"
| "first_seen (x # xs) = x # filter (\<lambda>y. y \<noteq> x) (first_seen xs)"

text \<open>
  The rank of the first and of the last occurrence of \<open>x\<close> in a list whose head has
  rank \<open>r\<close> (\<open>None\<close> when \<open>x\<close> does not occur). Ranks are 1-based when \<open>r = 1\<close>.
\<close>

fun first_rank_from :: "nat \<Rightarrow> 'a \<Rightarrow> 'a list \<Rightarrow> nat option" where
  "first_rank_from r x [] = None"
| "first_rank_from r x (y # ys) = (if y = x then Some r else first_rank_from (Suc r) x ys)"

fun last_rank_from :: "nat \<Rightarrow> 'a \<Rightarrow> 'a list \<Rightarrow> nat option" where
  "last_rank_from r x [] = None"
| "last_rank_from r x (y # ys) =
     (case last_rank_from (Suc r) x ys of
        Some k \<Rightarrow> Some k
      | None \<Rightarrow> (if y = x then Some r else None))"

text \<open>The score fields stored under a key of \<open>doc_scores\<close>, if any.\<close>

definition bm25_of :: "(string \<times> score_entry) list \<Rightarrow> string \<Rightarrow> rat option" where
  "bm25_of d i = Option.bind (map_of d i) entry_bm25_score"

definition vector_of :: "(string \<times> score_entry) list \<Rightarrow> string \<Rightarrow> rat option" where
  "vector_of d i = Option.bind (map_of d i) entry_vector_score"

text \<open>A well-formed search hit with the given identifier, for concrete evaluations.\<close>

definition example_hit :: "string \<Rightarrow> search_hit" where
  "example_hit i =
     \<lparr>hit_doc_id = i, hit_score = 1, hit_source = PDict [(''title'', PStr i)],
      hit_retrieval_method = ''bm25''\<rparr>"

section \<open>Stage outputs and activity calls\<close>

text \<open>
  \<open>AgentOutput\<close> of \<open>data/models.py\<close>. An agent activity returns
  \<open>result.model_dump()\<close>, a dictionary with exactly these five keys; the workflow
  reads it with \<open>.get\<close>, which the record selectors stand for.
\<close>

record agent_output =
  agent_name :: string
  output_data :: pydict
  metrics :: "(string \<times> rat) list"
  errors :: "string list"
  execution_time_ms :: rat

text \<open>A call either raises an exception (with its message) or returns a value.\<close>

datatype 'a outcome = Raised string | Returned 'a

text \<open>
  \<open>RetryPolicy\<close> of the workflow runtime. The workflow sets three fields; the backoff
  coefficient keeps the runtime's default 2. Intervals are in seconds.
\<close>

record RetryPolicy =
  initial_interval :: nat
  backoff_coefficient :: nat
  maximum_interval :: nat
  maximum_attempts :: nat

text \<open>
  \<^verbatim>\<open>
  retry_policy = RetryPolicy(
      initial_interval=timedelta(seconds=1),
      maximum_interval=timedelta(seconds=10),
      maximum_attempts=3)
  \<close>
\<close>

definition retry_policy :: RetryPolicy where
  "retry_policy =
     \<lparr>initial_interval = 1, backoff_coefficient = 2, maximum_interval = 10, maximum_attempts = 3\<rparr>"

text \<open>What one \<open>execute_activity\<close> call did: its final result, the number of attempts made
  and the delays waited between them.\<close>

record 'a execution =
  ex_result :: "'a outcome"
  ex_attempts :: nat
  ex_delays :: "nat list"

text \<open>The delay after the \<open>n\<close>-th failed attempt: exponential backoff, capped.\<close>

definition retry_delay :: "RetryPolicy \<Rightarrow> nat \<Rightarrow> nat" where
  "retry_delay p n =
     min (initial_interval p * backoff_coefficient p ^ (n - 1)) (maximum_interval p)"

text \<open>
  Modelled from the spec: the retry loop of the workflow runtime behind
  \<open>workflow.execute_activity\<close> (the spec's StageExecutor, section 4.1), which is a library
  and not part of the sources. The activity is given by its behaviour at each attempt.
  An attempt that raises is an infrastructure-level (TRANSIENT) failure and is retried
  after the policy's delay while attempts remain; after the last attempt the last failure
  is the result. An attempt that returns ends the call with the returned value, whether
  or not that value declares errors of its own (a SEMANTIC failure).
\<close>

function attempt_from :: "RetryPolicy \<Rightarrow> (nat \<Rightarrow> 'a outcome) \<Rightarrow> nat \<Rightarrow> 'a execution" where
  "attempt_from p act n =
     (case act n of
        Returned v \<Rightarrow> \<lparr>ex_result = Returned v, ex_attempts = n, ex_delays = []\<rparr>
      | Raised e \<Rightarrow>
          if n < maximum_attempts p
          then (let ex = attempt_from p act (Suc n)
                in ex\<lparr>ex_delays := retry_delay p n # ex_delays ex\<rparr>)
          else \<lparr>ex_result = Raised e, ex_attempts = n, ex_delays = []\<rparr>)"
  by pat_completeness auto
termination
  by (relation "measure (\<lambda>(p, act, n). maximum_attempts p - n)") auto

definition execute_activity :: "RetryPolicy \<Rightarrow> (nat \<Rightarrow> 'a outcome) \<Rightarrow> 'a execution" where
  "execute_activity p act = attempt_from p act 1"

section \<open>Persistence: \<open>save_research_result_activity\<close>\<close>

text \<open>
  A row of the table \<open>research_requests\<close> (\<open>ResearchRequestDB\<close>), with the columns the
  activity reads or writes. \<open>row_id\<close> is the primary key. Times are seconds.
\<close>

record research_request =
  row_id :: string
  row_topic :: string
  row_status :: pyval
  row_created_at :: "rat option"
  row_completed_at :: "rat option"
  row_processing_time_seconds :: "rat option"
  row_brief_data :: pyval
  row_error :: "string option"

text \<open>
  What the activity takes from outside: the two readings of \<open>datetime.utcnow()\<close>, and
  the exception the database layer raises inside the \<open>try\<close> block, if any.
\<close>

record save_env =
  utcnow_first :: rat
  utcnow_second :: rat
  db_exception :: "string option"

text \<open>The name Python prints for the type of a value.\<close>

fun type_name :: "pyval \<Rightarrow> string" where
  "type_name PNone = ''NoneType''"
| "type_name (PBool b) = ''bool''"
| "type_name (PInt i) = ''int''"
| "type_name (PFloat x) = ''float''"
| "type_name (PStr s) = ''str''"
| "type_name (PList xs) = ''list''"
| "type_name (PDict d) = ''dict''"

text \<open>
  The assignments to the found record:
  \<^verbatim>\<open>
  db_request.status = result.get("status", ResearchStatus.COMPLETED.value)
  db_request.brief_data = result.get("brief")
  db_request.completed_at = datetime.utcnow()
  if db_request.created_at:
      db_request.processing_time_seconds =
          (datetime.utcnow() - db_request.created_at).total_seconds()
  \<close>
\<close>

definition update_request :: "save_env \<Rightarrow> pydict \<Rightarrow> research_request \<Rightarrow> research_request" where
  "update_request env result db_request =
     db_request
       \<lparr>row_status := dict_get result ''status'' (PStr ''completed''),
        row_brief_data := dict_get result ''brief'' PNone,
        row_completed_at := Some (utcnow_first env),
        row_processing_time_seconds :=
          (case row_created_at db_request of
             Some created \<Rightarrow> Some (utcnow_second env - created)
           | None \<Rightarrow> row_processing_time_seconds db_request)\<rparr>"

text \<open>
  The activity on the table, returning the new table and the returned dictionary.
  The record is looked up by \<open>filter(id == request_id).first()\<close>; the commit writes the
  changed columns of the row with that primary key. Any exception inside the \<open>try\<close>
  block rolls back, which leaves the table as it was: the database's own exception, or
  the \<open>AttributeError\<close> of \<open>result.get\<close> when \<open>result\<close> is not a dictionary. When no
  record is found the activity only logs a warning.
\<close>

definition save_research_result_activity ::
    "save_env \<Rightarrow> pydict \<Rightarrow> research_request list \<Rightarrow> research_request list \<times> pydict" where
  "save_research_result_activity env data db =
     (case db_exception env of
        Some e \<Rightarrow> (db, [(''success'', PBool False), (''error'', PStr e)])
      | None \<Rightarrow>
          (let request_id = dict_get data ''request_id'' PNone;
               result = dict_get data ''result'' (PDict [])
           in case find (\<lambda>row. PStr (row_id row) = request_id) db of
                Some db_request \<Rightarrow>
                  (case result of
                     PDict r \<Rightarrow>
                       (map (\<lambda>row. if row_id row = row_id db_request
                                   then update_request env r row else row) db,
                        [(''success'', PBool True)])
                   | _ \<Rightarrow>
                       (db, [(''success'', PBool False),
                             (''error'', PStr ([CHR 0x27] @ type_name result @ [CHR 0x27]
                                               @ '' object has no attribute '' @ [CHR 0x27]
                                               @ ''get'' @ [CHR 0x27]))]))
              | None \<Rightarrow> (db, [(''success'', PBool True)])))"

section \<open>The orchestrator: \<open>ResearchWorkflow.run\<close>\<close>

datatype activity_name =
    QueryFilter
  | RetrieverSummarizer
  | FactCheckWriter
  | SaveResearchResult

text \<open>One \<open>workflow.execute_activity\<close> call as the workflow issued it.\<close>

record activity_call =
  call_activity :: activity_name
  call_input :: pydict
  call_timeout :: nat
  call_policy :: RetryPolicy
  call_attempts :: nat

text \<open>
  What the workflow runs against: the three agent activities, each given by its
  behaviour on an input at each attempt, Python's \<open>repr\<close> of a string (used when the
  error list is formatted into a message), and the environment of the save activity.
\<close>

record workflow_env =
  run_query_filter_activity :: "pydict \<Rightarrow> nat \<Rightarrow> agent_output outcome"
  run_retriever_summarizer_activity :: "pydict \<Rightarrow> nat \<Rightarrow> agent_output outcome"
  run_fact_check_writer_activity :: "pydict \<Rightarrow> nat \<Rightarrow> agent_output outcome"
  str_repr :: "string \<Rightarrow> string"
  save_environment :: save_env

text \<open>The end of a run: what \<open>run\<close> returned or raised, the activity calls it made in
  order, and the table afterwards.\<close>

record workflow_end =
  wf_result :: "pydict outcome"
  wf_calls :: "activity_call list"
  wf_db :: "research_request list"

text \<open>\<open>", ".join\<close> and the \<open>repr\<close> of a list of strings.\<close>

fun join_comma :: "string list \<Rightarrow> string" where
  "join_comma [] = []"
| "join_comma [s] = s"
| "join_comma (s # t # rest) = s @ '', '' @ join_comma (t # rest)"

definition list_repr :: "(string \<Rightarrow> string) \<Rightarrow> string list \<Rightarrow> string" where
  "list_repr repr xs = ''['' @ join_comma (map repr xs) @ '']''"

text \<open>
  \<^verbatim>\<open>{"status": ResearchStatus.FAILED.value, "error": f"<agent> failed: {output['errors']}"}\<close>
\<close>

definition failed_result :: "workflow_env \<Rightarrow> string \<Rightarrow> agent_output \<Rightarrow> pydict" where
  "failed_result env agent out =
     [(''status'', PStr ''failed''),
      (''error'', PStr (agent @ '' failed: '' @ list_repr (str_repr env) (errors out)))]"

definition agent2_input :: "pydict \<Rightarrow> agent_output \<Rightarrow> pydict" where
  "agent2_input request agent1_output =
     [(''topic'', dict_get request ''topic'' PNone),
      (''expansion'', dict_get (output_data agent1_output) ''expansion'' (PDict [])),
      (''top_k'', dict_get request ''max_sources'' (PInt 15))]"

definition agent3_input :: "pydict \<Rightarrow> agent_output \<Rightarrow> pydict" where
  "agent3_input request agent2_output =
     [(''topic'', dict_get request ''topic'' PNone),
      (''retrieved_docs'', dict_get (output_data agent2_output) ''retrieved_documents'' (PList [])),
      (''summary_data'', dict_get (output_data agent2_output) ''summary'' (PDict []))]"

definition completed_result :: "agent_output \<Rightarrow> agent_output \<Rightarrow> agent_output \<Rightarrow> pydict" where
  "completed_result agent1_output agent2_output agent3_output =
     [(''status'', PStr ''completed''),
      (''brief'', dict_get (output_data agent3_output) ''research_brief'' PNone),
      (''metrics'', PDict
         [(''agent1_time_ms'', PFloat (execution_time_ms agent1_output)),
          (''agent2_time_ms'', PFloat (execution_time_ms agent2_output)),
          (''agent3_time_ms'', PFloat (execution_time_ms agent3_output)),
          (''total_time_ms'', PFloat (execution_time_ms agent1_output
                                      + execution_time_ms agent2_output
                                      + execution_time_ms agent3_output))])]"

definition save_input :: "pydict \<Rightarrow> pydict \<Rightarrow> pydict" where
  "save_input request result =
     [(''request_id'', dict_get request ''request_id'' PNone), (''result'', PDict result)]"

definition activity_call :: "activity_name \<Rightarrow> pydict \<Rightarrow> nat \<Rightarrow> 'a execution \<Rightarrow> activity_call" where
  "activity_call name input timeout ex =
     \<lparr>call_activity = name, call_input = input, call_timeout = timeout,
      call_policy = retry_policy, call_attempts = ex_attempts ex\<rparr>"

text \<open>
  The workflow is one function in the source; the model names the part of it that
  follows each stage, so that \<open>ResearchWorkflow_run\<close> below reads as the sequence it is.
  The last step of \<open>run\<close>, reached only after three stages without errors: build the
  COMPLETED result, run the save activity on it, return the result. The save activity
  catches its own exceptions, so its single attempt returns.
\<close>

definition save_and_return ::
    "workflow_env \<Rightarrow> pydict \<Rightarrow> research_request list \<Rightarrow> activity_call list \<Rightarrow>
     agent_output \<Rightarrow> agent_output \<Rightarrow> agent_output \<Rightarrow> workflow_end" where
  "save_and_return env request db calls agent1_output agent2_output agent3_output =
     (let result = completed_result agent1_output agent2_output agent3_output;
          data = save_input request result;
          ex4 = execute_activity retry_policy
                  (\<lambda>n. Returned (save_research_result_activity (save_environment env) data db));
          call4 = activity_call SaveResearchResult data 30 ex4
      in case ex_result ex4 of
           Raised e \<Rightarrow> \<lparr>wf_result = Raised e, wf_calls = calls @ [call4], wf_db = db\<rparr>
         | Returned saved \<Rightarrow>
             \<lparr>wf_result = Returned result, wf_calls = calls @ [call4], wf_db = fst saved\<rparr>)"

text \<open>Stage 3 and what follows it.\<close>

definition stage3 ::
    "workflow_env \<Rightarrow> pydict \<Rightarrow> research_request list \<Rightarrow> activity_call list \<Rightarrow>
     agent_output \<Rightarrow> agent_output \<Rightarrow> workflow_end" where
  "stage3 env request db calls agent1_output agent2_output =
     (let input = agent3_input request agent2_output;
          ex3 = execute_activity retry_policy (run_fact_check_writer_activity env input);
          calls3 = calls @ [activity_call FactCheckWriter input 120 ex3]
      in case ex_result ex3 of
           Raised e \<Rightarrow> \<lparr>wf_result = Raised e, wf_calls = calls3, wf_db = db\<rparr>
         | Returned agent3_output \<Rightarrow>
             if errors agent3_output \<noteq> []
             then \<lparr>wf_result = Returned (failed_result env ''Fact-Check+Writer Agent'' agent3_output),
                   wf_calls = calls3, wf_db = db\<rparr>
             else save_and_return env request db calls3 agent1_output agent2_output agent3_output)"

text \<open>Stage 2 and what follows it.\<close>

definition stage2 ::
    "workflow_env \<Rightarrow> pydict \<Rightarrow> research_request list \<Rightarrow> activity_call list \<Rightarrow>
     agent_output \<Rightarrow> workflow_end" where
  "stage2 env request db calls agent1_output =
     (let input = agent2_input request agent1_output;
          ex2 = execute_activity retry_policy (run_retriever_summarizer_activity env input);
          calls2 = calls @ [activity_call RetrieverSummarizer input 120 ex2]
      in case ex_result ex2 of
           Raised e \<Rightarrow> \<lparr>wf_result = Raised e, wf_calls = calls2, wf_db = db\<rparr>
         | Returned agent2_output \<Rightarrow>
             if errors agent2_output \<noteq> []
             then \<lparr>wf_result = Returned (failed_result env ''Retriever+Summarizer Agent'' agent2_output),
                   wf_calls = calls2, wf_db = db\<rparr>
             else stage3 env request db calls2 agent1_output agent2_output)"

text \<open>
  \<open>ResearchWorkflow.run\<close>: the three stages in sequence, each under \<open>retry_policy\<close>, each
  followed by the check \<^verbatim>\<open>if agentN_output.get("errors"): return {...FAILED...}\<close>. An
  activity call whose attempts all raised raises in the workflow, which does not catch it.
\<close>

definition ResearchWorkflow_run :: "workflow_env \<Rightarrow> pydict \<Rightarrow> research_request list \<Rightarrow> workflow_end" where
  "ResearchWorkflow_run env request db =
     (let ex1 = execute_activity retry_policy (run_query_filter_activity env request);
          calls1 = [activity_call QueryFilter request 60 ex1]
      in case ex_result ex1 of
           Raised e \<Rightarrow> \<lparr>wf_result = Raised e, wf_calls = calls1, wf_db = db\<rparr>
         | Returned agent1_output \<Rightarrow>
             if errors agent1_output \<noteq> []
             then \<lparr>wf_result = Returned (failed_result env ''Query+Filter Agent'' agent1_output),
                   wf_calls = calls1, wf_db = db\<rparr>
             else stage2 env request db calls1 agent1_output)"

subsection \<open>A concrete pipeline for evaluations\<close>

text \<open>
  An agent output as \<open>run\<close> builds it: with the given error list, and \<open>{"error": ...}\<close>
  as its data when that list is not empty.
\<close>

definition example_output :: "string \<Rightarrow> pydict \<Rightarrow> string list \<Rightarrow> agent_output" where
  "example_output name data errs =
     \<lparr>agent_name = name,
      output_data = (case errs of [] \<Rightarrow> data | e # _ \<Rightarrow> [(''error'', PStr e)]),
      metrics = [], errors = errs, execution_time_ms = 5\<rparr>"

text \<open>
  Activities that return at their first attempt, each stage with the given error list;
  \<open>repr\<close> of a string without quotes or escapes in it puts it between single quotes.
\<close>

definition example_env :: "string list \<Rightarrow> string list \<Rightarrow> string list \<Rightarrow> workflow_env" where
  "example_env errs1 errs2 errs3 =
     \<lparr>run_query_filter_activity =
        (\<lambda>input n. Returned (example_output ''QueryFilterAgent''
                                [(''expansion'', PDict [(''expanded_queries'', PList [PStr ''q''])])] errs1)),
      run_retriever_summarizer_activity =
        (\<lambda>input n. Returned (example_output ''RetrieverSummarizerAgent''
                                [(''retrieved_documents'', PList []), (''summary'', PDict [])] errs2)),
      run_fact_check_writer_activity =
        (\<lambda>input n. Returned (example_output ''FactCheckWriterAgent''
                                [(''research_brief'', PDict [(''executive_brief'', PStr ''brief'')])] errs3)),
      str_repr = (\<lambda>s. [CHR 0x27] @ s @ [CHR 0x27]),
      save_environment = \<lparr>utcnow_first = 100, utcnow_second = 101, db_exception = None\<rparr>\<rparr>"

definition example_request :: pydict where
  "example_request =
     [(''request_id'', PStr ''r1''), (''topic'', PStr ''diabetes management in elderly patients'')]"

text \<open>The table as the API leaves it once the workflow has been started.\<close>

definition example_db :: "research_request list" where
  "example_db =
     [\<lparr>row_id = ''r1'', row_topic = ''diabetes management in elderly patients'',
       row_status = PStr ''processing'', row_created_at = Some 40, row_completed_at = None,
       row_processing_time_seconds = None, row_brief_data = PNone, row_error = None\<rparr>]"

text \<open>A COMPLETED outcome addressed to a request identifier.\<close>

definition example_save_data :: "string \<Rightarrow> pydict" where
  "example_save_data rid =
     [(''request_id'', PStr rid),
      (''result'', PDict [(''status'', PStr ''completed''), (''brief'', PStr ''brief'')])]"


section \<open>The agents' \<open>run\<close> methods\<close>

text \<open>
  Each \<open>run\<close> has the same shape: \<open>errors = []\<close>, \<open>metrics = {}\<close>, a \<open>try\<close> block whose
  steps fill \<open>metrics\<close> and build \<open>output_data\<close>, an \<open>except Exception\<close> handler that
  records the message, and after the handler the construction of \<open>AgentOutput\<close>.
  A step of the \<open>try\<close> block works on the metrics dictionary and either returns a value
  or raises; the metrics written before a raise stay written.
\<close>

type_synonym 'a step = "pydict \<Rightarrow> 'a outcome \<times> pydict"

definition returns :: "'a \<Rightarrow> 'a step" where
  "returns x = (\<lambda>metrics. (Returned x, metrics))"

definition call :: "'a outcome \<Rightarrow> 'a step" where
  "call r = (\<lambda>metrics. (r, metrics))"

definition and_then :: "'a step \<Rightarrow> ('a \<Rightarrow> 'b step) \<Rightarrow> 'b step" where
  "and_then m f =
     (\<lambda>metrics. case m metrics of
                  (Raised e, metrics') \<Rightarrow> (Raised e, metrics')
                | (Returned x, metrics') \<Rightarrow> f x metrics')"

text \<open>\<^verbatim>\<open>metrics[key] = value\<close>\<close>

definition set_metric :: "string \<Rightarrow> pyval \<Rightarrow> unit step" where
  "set_metric key v = (\<lambda>metrics. (Returned (), dict_set key v metrics))"

text \<open>
  \<^verbatim>\<open>x.get(key, default)\<close> and \<^verbatim>\<open>len(x)\<close> on an arbitrary value: the first raises
  \<open>AttributeError\<close> unless \<open>x\<close> is a dictionary, the second raises \<open>TypeError\<close> unless \<open>x\<close>
  is a string, a list or a dictionary.
\<close>

definition py_get :: "pyval \<Rightarrow> string \<Rightarrow> pyval \<Rightarrow> pyval outcome" where
  "py_get x key dflt =
     (case x of
        PDict d \<Rightarrow> Returned (dict_get d key dflt)
      | _ \<Rightarrow> Raised ([CHR 0x27] @ type_name x @ [CHR 0x27] @ '' object has no attribute ''
                     @ [CHR 0x27] @ ''get'' @ [CHR 0x27]))"

definition py_len :: "pyval \<Rightarrow> nat outcome" where
  "py_len x =
     (case x of
        PStr s \<Rightarrow> Returned (length s)
      | PList xs \<Rightarrow> Returned (length xs)
      | PDict d \<Rightarrow> Returned (length d)
      | _ \<Rightarrow> Raised (''object of type '' @ [CHR 0x27] @ type_name x @ [CHR 0x27]
                     @ '' has no len()''))"

text \<open>\<^verbatim>\<open>xs[:n]\<close>: a negative bound counts from the end.\<close>

definition slice_to :: "'a list \<Rightarrow> int \<Rightarrow> 'a list" where
  "slice_to xs n = (if 0 \<le> n then take (nat n) xs else take (length xs - nat (- n)) xs)"

text \<open>\<^verbatim>\<open>len(s.split())\<close>: the number of maximal runs of non-whitespace characters.\<close>

definition is_space :: "char \<Rightarrow> bool" where
  "is_space c \<longleftrightarrow> c \<in> set [CHR '' '', CHR 0x09, CHR 0x0A, CHR 0x0B, CHR 0x0C, CHR 0x0D]"

fun count_words :: "bool \<Rightarrow> string \<Rightarrow> nat" where
  "count_words in_word [] = 0"
| "count_words in_word (c # cs) =
     (if is_space c then count_words False cs
      else (if in_word then 0 else 1) + count_words True cs)"

subsection \<open>The construction of \<open>AgentOutput\<close>\<close>

text \<open>
  \<open>AgentOutput\<close> declares \<open>metrics: Dict[str, float]\<close>, and the model validates its
  fields when it is constructed. A number or a boolean is a valid float, a string only
  if it parses as a number (\<open>parse_number\<close> stands for that parser), \<open>None\<close>, a list and
  a dictionary never are.
\<close>

fun float_of :: "(string \<Rightarrow> rat option) \<Rightarrow> pyval \<Rightarrow> rat option" where
  "float_of parse_number (PInt i) = Some (of_int i)"
| "float_of parse_number (PFloat x) = Some x"
| "float_of parse_number (PBool b) = Some (if b then 1 else 0)"
| "float_of parse_number (PStr s) = parse_number s"
| "float_of parse_number v = None"

fun validate_metrics :: "(string \<Rightarrow> rat option) \<Rightarrow> pydict \<Rightarrow> (string \<times> rat) list option" where
  "validate_metrics parse_number [] = Some []"
| "validate_metrics parse_number ((k, v) # rest) =
     (case float_of parse_number v of
        None \<Rightarrow> None
      | Some x \<Rightarrow> map_option (\<lambda>ms. (k, x) # ms) (validate_metrics parse_number rest))"

text \<open>
  \<^verbatim>\<open>AgentOutput(agent_name=..., output_data=..., metrics=..., errors=..., execution_time_ms=...)\<close>:
  the other four arguments always have the declared types, so the construction raises
  \<open>ValidationError\<close> exactly when a metric is not a valid float.
\<close>

definition AgentOutput ::
    "(string \<Rightarrow> rat option) \<Rightarrow> string \<Rightarrow> pydict \<Rightarrow> pydict \<Rightarrow> string list \<Rightarrow> rat \<Rightarrow> agent_output outcome" where
  "AgentOutput parse_number name data ms errs time_ms =
     (case validate_metrics parse_number ms of
        None \<Rightarrow> Raised ''validation error for AgentOutput: metrics: Input should be a valid number''
      | Some valid \<Rightarrow>
          Returned \<lparr>agent_name = name, output_data = data, metrics = valid, errors = errs,
                    execution_time_ms = time_ms\<rparr>)"

text \<open>
  What surrounds the \<open>try\<close> block in all three \<open>run\<close> methods. \<open>body\<close> is the block,
  run on the empty metrics; \<open>start\<close> and \<open>stop\<close> are the two readings of \<open>time.time()\<close>.
  \<^verbatim>\<open>
  except Exception as e:
      errors.append(str(e))
      output_data = {"error": str(e)}
  execution_time_ms = (time.time() - start_time) * 1000
  return AgentOutput(...)
  \<close>
\<close>

definition run_agent ::
    "(string \<Rightarrow> rat option) \<Rightarrow> string \<Rightarrow> rat \<Rightarrow> rat \<Rightarrow> pydict step \<Rightarrow> agent_output outcome" where
  "run_agent parse_number name start stop body =
     (case body [] of
        (Returned data, ms) \<Rightarrow>
          AgentOutput parse_number name data ms [] ((stop - start) * 1000)
      | (Raised e, ms) \<Rightarrow>
          AgentOutput parse_number name [(''error'', PStr e)] ms [e] ((stop - start) * 1000))"

subsection \<open>\<open>QueryFilterAgent.run\<close>\<close>

text \<open>
  The agent's collaborators: the result of \<open>expand_query\<close> (a language-model call
  parsed as JSON) and of \<open>vet_results\<close>, the two clock readings, and the number parser
  of the validation.
\<close>

record query_filter_env =
  qf_expand_query :: "pyval outcome"
  qf_vet_results :: "pyval list outcome"
  qf_start :: rat
  qf_stop :: rat
  qf_parse_number :: "string \<Rightarrow> rat option"

text \<open>The \<open>try\<close> block. \<open>mock_search_results\<close> is \<open>None\<close> or a list; an empty list is falsy.\<close>

definition query_filter_body ::
    "query_filter_env \<Rightarrow> pyval \<Rightarrow> int \<Rightarrow> pyval list option \<Rightarrow> pydict step" where
  "query_filter_body env topic max_sources mock_search_results =
     and_then (call (qf_expand_query env)) (\<lambda>expansion.
     and_then (call (py_get expansion ''expanded_queries'' (PList []))) (\<lambda>queries.
     and_then (call (py_len queries)) (\<lambda>n_queries.
     and_then (set_metric ''expanded_queries_count'' (PInt (int n_queries))) (\<lambda>_.
     and_then (call (py_get expansion ''mesh_terms'' (PList []))) (\<lambda>terms.
     and_then (call (py_len terms)) (\<lambda>n_terms.
     and_then (set_metric ''mesh_terms_count'' (PInt (int n_terms))) (\<lambda>_.
     and_then
       (case mock_search_results of
          None \<Rightarrow> returns []
        | Some [] \<Rightarrow> returns []
        | Some mock \<Rightarrow>
            and_then (call (qf_vet_results env)) (\<lambda>vetted.
            and_then (set_metric ''results_before_vetting'' (PInt (int (length mock)))) (\<lambda>_.
            and_then (set_metric ''results_after_vetting'' (PInt (int (length vetted)))) (\<lambda>_.
            and_then (set_metric ''vetting_filter_rate''
                        (PFloat (1 - of_nat (length vetted) / of_nat (max (length mock) 1)))) (\<lambda>_.
            returns vetted)))))
       (\<lambda>vetted.
     returns [(''expansion'', expansion),
              (''vetted_results'', PList (slice_to vetted max_sources)),
              (''topic'', topic)]))))))))"

definition QueryFilterAgent_run ::
    "query_filter_env \<Rightarrow> pyval \<Rightarrow> int \<Rightarrow> pyval list option \<Rightarrow> agent_output outcome" where
  "QueryFilterAgent_run env topic max_sources mock_search_results =
     run_agent (qf_parse_number env) ''QueryFilterAgent'' (qf_start env) (qf_stop env)
       (query_filter_body env topic max_sources mock_search_results)"

subsection \<open>\<open>RetrieverSummarizerAgent.run\<close>\<close>

record retriever_env =
  rs_bm25_search :: "search_hit list outcome"
  rs_vector_search :: "search_hit list outcome"
  rs_hierarchical_summarize :: "fused_doc list \<Rightarrow> pyval outcome"
  rs_start :: rat
  rs_stop :: rat
  rs_parse_number :: "string \<Rightarrow> rat option"

text \<open>A fused document as the dictionary it is in \<open>output_data\<close>.\<close>

definition fused_doc_dict :: "fused_doc \<Rightarrow> pyval" where
  "fused_doc_dict d =
     PDict [(''doc_id'', PStr (doc_id d)), (''source'', source d),
            (''hybrid_score'', PFloat (hybrid_score d)), (''bm25_score'', PFloat (bm25_score d)),
            (''vector_score'', PFloat (vector_score d))]"

text \<open>
  The \<open>try\<close> block: both searches, \<open>hybrid_fusion\<close> with its default weight 0.5,
  \<open>rerank\<close> (the first \<open>rerank_top_k\<close> results) and the summary.
\<close>

definition retriever_body :: "retriever_env \<Rightarrow> pyval \<Rightarrow> int \<Rightarrow> pydict step" where
  "retriever_body env topic rerank_top_k =
     and_then (call (rs_bm25_search env)) (\<lambda>bm25_results.
     and_then (set_metric ''bm25_results_count'' (PInt (int (length bm25_results)))) (\<lambda>_.
     and_then (call (rs_vector_search env)) (\<lambda>vector_results.
     and_then (set_metric ''vector_results_count'' (PInt (int (length vector_results)))) (\<lambda>_.
     and_then (returns (hybrid_fusion bm25_results vector_results (1 / 2))) (\<lambda>fused_results.
     and_then (set_metric ''fused_results_count'' (PInt (int (length fused_results)))) (\<lambda>_.
     and_then (returns (slice_to fused_results rerank_top_k)) (\<lambda>reranked.
     and_then (set_metric ''final_results_count'' (PInt (int (length reranked)))) (\<lambda>_.
     and_then (call (rs_hierarchical_summarize env reranked)) (\<lambda>summary.
     returns [(''retrieved_documents'', PList (map fused_doc_dict reranked)),
              (''summary'', summary),
              (''topic'', topic)])))))))))"

definition RetrieverSummarizerAgent_run :: "retriever_env \<Rightarrow> pyval \<Rightarrow> int \<Rightarrow> agent_output outcome" where
  "RetrieverSummarizerAgent_run env topic rerank_top_k =
     run_agent (rs_parse_number env) ''RetrieverSummarizerAgent'' (rs_start env) (rs_stop env)
       (retriever_body env topic rerank_top_k)"

subsection \<open>\<open>FactCheckWriterAgent.run\<close>\<close>

text \<open>
  The collaborators: \<open>write_brief\<close> and \<open>assess_risks\<close> are language-model calls parsed
  as JSON; the construction of the \<open>SourceMetadata\<close> list, \<open>extract_citations_from_brief\<close>,
  the construction of the \<open>RiskFlag\<close> list and \<open>build_traceability\<close> return a list or
  raise (each validates models or calls the language model).
\<close>

record fact_check_env =
  fcw_write_brief :: "pyval outcome"
  fcw_sources_metadata :: "pyval list \<Rightarrow> pyval list outcome"
  fcw_extract_citations :: "pyval \<Rightarrow> pyval list \<Rightarrow> pyval list outcome"
  fcw_assess_risks :: "pyval outcome"
  fcw_risk_flags :: "pyval \<Rightarrow> pyval list outcome"
  fcw_build_traceability :: "pyval \<Rightarrow> pyval list \<Rightarrow> pyval list outcome"
  fcw_start :: rat
  fcw_stop :: rat
  fcw_parse_number :: "string \<Rightarrow> rat option"

text \<open>
  \<^verbatim>\<open>len(brief_text.split())\<close>, the default of the \<open>word_count\<close> lookup; Python evaluates it
  before the lookup, so it raises \<open>AttributeError\<close> when \<open>brief_text\<close> is not a string.
\<close>

definition default_word_count :: "pyval \<Rightarrow> pyval outcome" where
  "default_word_count brief_text =
     (case brief_text of
        PStr s \<Rightarrow> Returned (PInt (int (count_words False s)))
      | _ \<Rightarrow> Raised ([CHR 0x27] @ type_name brief_text @ [CHR 0x27] @ '' object has no attribute ''
                     @ [CHR 0x27] @ ''split'' @ [CHR 0x27]))"

text \<open>
  \<open>ResearchBrief\<close> declares \<open>executive_brief: str\<close> and \<open>word_count: int\<close>: a valid
  integer is an integer, a boolean, a float without fractional part, or a string that
  parses as such a number.
\<close>

fun int_of :: "(string \<Rightarrow> rat option) \<Rightarrow> pyval \<Rightarrow> int option" where
  "int_of parse_number (PInt i) = Some i"
| "int_of parse_number (PBool b) = Some (if b then 1 else 0)"
| "int_of parse_number (PFloat x) = (if x = of_int \<lfloor>x\<rfloor> then Some \<lfloor>x\<rfloor> else None)"
| "int_of parse_number (PStr s) =
     (case parse_number s of
        None \<Rightarrow> None
      | Some x \<Rightarrow> if x = of_int \<lfloor>x\<rfloor> then Some \<lfloor>x\<rfloor> else None)"
| "int_of parse_number v = None"

text \<open>\<^verbatim>\<open>ResearchBrief(executive_brief=brief_text, word_count=word_count, ...).model_dump()\<close>\<close>

definition research_brief ::
    "(string \<Rightarrow> rat option) \<Rightarrow> pyval \<Rightarrow> pyval \<Rightarrow> pyval list \<Rightarrow> pyval list \<Rightarrow> pyval list \<Rightarrow>
     pyval list \<Rightarrow> pydict \<Rightarrow> pyval outcome" where
  "research_brief parse_number brief_text word_count sources citations risk_flags traceability metadata =
     (case (brief_text, int_of parse_number word_count) of
        (PStr text, Some n) \<Rightarrow>
          Returned (PDict [(''executive_brief'', PStr text), (''word_count'', PInt n),
                           (''sources'', PList sources), (''citations'', PList citations),
                           (''risk_flags'', PList risk_flags),
                           (''traceability'', PList traceability),
                           (''metadata'', PDict metadata)])
      | _ \<Rightarrow> Raised ''validation error for ResearchBrief'')"

text \<open>The \<open>try\<close> block, steps 1 to 6 of the source.\<close>

definition fact_check_body ::
    "fact_check_env \<Rightarrow> pyval \<Rightarrow> pyval list \<Rightarrow> pyval \<Rightarrow> pydict step" where
  "fact_check_body env topic retrieved_docs summary_data =
     and_then (call (fcw_write_brief env)) (\<lambda>brief_data.
     and_then (call (py_get brief_data ''brief_text'' (PStr []))) (\<lambda>brief_text.
     and_then (call (default_word_count brief_text)) (\<lambda>dflt.
     and_then (call (py_get brief_data ''word_count'' dflt)) (\<lambda>word_count.
     and_then (call (py_get brief_data ''claims'' (PList []))) (\<lambda>claims.
     and_then (set_metric ''word_count'' word_count) (\<lambda>_.
     and_then (call (py_len claims)) (\<lambda>n_claims.
     and_then (set_metric ''claims_count'' (PInt (int n_claims))) (\<lambda>_.
     and_then (call (fcw_sources_metadata env retrieved_docs)) (\<lambda>sources_metadata.
     and_then (call (fcw_extract_citations env brief_text retrieved_docs)) (\<lambda>citations.
     and_then (set_metric ''citations_count'' (PInt (int (length citations)))) (\<lambda>_.
     and_then (call (py_get summary_data ''contradictions'' (PList []))) (\<lambda>contradictions.
     and_then (call (fcw_assess_risks env)) (\<lambda>risk_flags_data.
     and_then (call (fcw_risk_flags env risk_flags_data)) (\<lambda>risk_flags.
     and_then (set_metric ''risk_flags_count'' (PInt (int (length risk_flags)))) (\<lambda>_.
     and_then (call (fcw_build_traceability env claims retrieved_docs)) (\<lambda>traceability.
     and_then (set_metric ''traceability_entries'' (PInt (int (length traceability)))) (\<lambda>_.
     and_then (call (py_get summary_data ''overall_quality'' (PStr ''unknown''))) (\<lambda>quality.
     and_then (call (research_brief (fcw_parse_number env) brief_text word_count sources_metadata
                       citations risk_flags traceability
                       [(''topic'', topic), (''contradictions'', contradictions),
                        (''overall_quality'', quality)])) (\<lambda>brief.
     returns [(''research_brief'', brief), (''topic'', topic)])))))))))))))))))))"

definition FactCheckWriterAgent_run ::
    "fact_check_env \<Rightarrow> pyval \<Rightarrow> pyval list \<Rightarrow> pyval \<Rightarrow> agent_output outcome" where
  "FactCheckWriterAgent_run env topic retrieved_docs summary_data =
     run_agent (fcw_parse_number env) ''FactCheckWriterAgent'' (fcw_start env) (fcw_stop env)
       (fact_check_body env topic retrieved_docs summary_data)"

text \<open>
  A run of the agent on no documents in which every collaborator answers, and the
  language model's brief has the given \<open>word_count\<close> entry.
\<close>

definition example_fact_check_env :: "pyval \<Rightarrow> fact_check_env" where
  "example_fact_check_env word_count =
     \<lparr>fcw_write_brief =
        Returned (PDict [(''brief_text'', PStr ''Metformin remains first-line therapy.''),
                         (''word_count'', word_count), (''claims'', PList [])]),
      fcw_sources_metadata = (\<lambda>docs. Returned []),
      fcw_extract_citations = (\<lambda>text docs. Returned []),
      fcw_assess_risks = Returned (PList []),
      fcw_risk_flags = (\<lambda>data. Returned []),
      fcw_build_traceability = (\<lambda>claims docs. Returned []),
      fcw_start = 10, fcw_stop = 12,
      fcw_parse_number = (\<lambda>s. None)\<rparr>"

text \<open>Metrics whose values are all numbers, and steps that keep them so.\<close>

fun numeric :: "pyval \<Rightarrow> bool" where
  "numeric (PInt i) = True"
| "numeric (PFloat x) = True"
| "numeric v = False"

definition numeric_metrics :: "pydict \<Rightarrow> bool" where
  "numeric_metrics ms \<longleftrightarrow> list_all (\<lambda>kv. numeric (snd kv)) ms"

definition keeps_numeric :: "'a step \<Rightarrow> bool" where
  "keeps_numeric m \<longleftrightarrow> (\<forall>ms. numeric_metrics ms \<longrightarrow> numeric_metrics (snd (m ms)))"

section \<open>Properties of rank fusion\<close>

subsection \<open>Dictionary updates\<close>

lemma map_of_dict_set: "map_of (dict_set k v d) = (map_of d)(k \<mapsto> v)"
  by (induction d) (auto simp: fun_eq_iff)

lemma keys_dict_set:
  "map fst (dict_set k v d) = (if k \<in> set (map fst d) then map fst d else map fst d @ [k])"
  by (induction d) force+

lemma dict_set_twice: "dict_set k v2 (dict_set k v1 d) = dict_set k v2 d"
  by (induction d) auto

lemma bm25_step_alt:
  "bm25_step r h d =
     dict_set (hit_doc_id h)
       ((dict_get d (hit_doc_id h) (new_entry h))\<lparr>entry_bm25_score := Some (rrf_score r)\<rparr>) d"
  by (simp add: bm25_step_def Let_def dict_set_twice)

lemma vector_step_alt:
  "vector_step r h d =
     dict_set (hit_doc_id h)
       ((dict_get d (hit_doc_id h) (new_entry h))\<lparr>entry_vector_score := Some (rrf_score r)\<rparr>) d"
  by (auto simp: vector_step_def Let_def dict_set_twice dict_get_def map_of_dict_set)

lemma keys_bm25_step:
  "map fst (bm25_step r h d) =
     (if hit_doc_id h \<in> set (map fst d) then map fst d else map fst d @ [hit_doc_id h])"
  by (simp only: bm25_step_alt keys_dict_set)

lemma keys_vector_step:
  "map fst (vector_step r h d) =
     (if hit_doc_id h \<in> set (map fst d) then map fst d else map fst d @ [hit_doc_id h])"
  by (simp only: vector_step_alt keys_dict_set)

lemma bm25_of_bm25_step:
  "bm25_of (bm25_step r h d) i = (if i = hit_doc_id h then Some (rrf_score r) else bm25_of d i)"
  by (simp add: bm25_step_alt bm25_of_def map_of_dict_set)

lemma vector_of_bm25_step: "vector_of (bm25_step r h d) i = vector_of d i"
  by (auto simp: bm25_step_alt vector_of_def map_of_dict_set dict_get_def new_entry_def
           split: option.splits)

lemma vector_of_vector_step:
  "vector_of (vector_step r h d) i = (if i = hit_doc_id h then Some (rrf_score r) else vector_of d i)"
  by (simp add: vector_step_alt vector_of_def map_of_dict_set)

lemma bm25_of_vector_step: "bm25_of (vector_step r h d) i = bm25_of d i"
  by (auto simp: vector_step_alt bm25_of_def map_of_dict_set dict_get_def new_entry_def
           split: option.splits)

subsection \<open>Keys and scores after the two loops\<close>

lemma set_first_seen: "set (first_seen xs) = set xs"
  by (induction xs) auto

lemma distinct_first_seen: "distinct (first_seen xs)"
  by (induction xs) (auto simp: set_first_seen)

lemma first_seen_append:
  "first_seen (xs @ ys) = first_seen xs @ filter (\<lambda>y. y \<notin> set xs) (first_seen ys)"
  by (induction xs) (auto intro: filter_cong)

lemma first_seen_distinct: "distinct xs \<Longrightarrow> first_seen xs = xs"
  by (induction xs) (auto simp: set_first_seen filter_id_conv)

lemma keys_bm25_loop:
  "map fst (bm25_loop r B d) =
     map fst d @ filter (\<lambda>i. i \<notin> set (map fst d)) (first_seen (hit_ids B))"
proof (induction B arbitrary: r d)
  case Nil
  then show ?case by (simp add: hit_ids_def)
next
  case (Cons h B)
  show ?case
    by (auto simp: Cons.IH keys_bm25_step hit_ids_def intro: filter_cong)
qed

lemma keys_vector_loop:
  "map fst (vector_loop r V d) =
     map fst d @ filter (\<lambda>i. i \<notin> set (map fst d)) (first_seen (hit_ids V))"
proof (induction V arbitrary: r d)
  case Nil
  then show ?case by (simp add: hit_ids_def)
next
  case (Cons h V)
  show ?case
    by (auto simp: Cons.IH keys_vector_step hit_ids_def intro: filter_cong)
qed

lemma keys_doc_scores_of:
  "map fst (doc_scores_of B V) = first_seen (hit_ids B @ hit_ids V)"
  by (simp add: doc_scores_of_def keys_vector_loop keys_bm25_loop first_seen_append set_first_seen)

lemma bm25_of_bm25_loop:
  "bm25_of (bm25_loop r B d) i =
     (case last_rank_from r i (hit_ids B) of Some k \<Rightarrow> Some (rrf_score k) | None \<Rightarrow> bm25_of d i)"
  by (induction B arbitrary: r d)
     (auto simp: hit_ids_def bm25_of_bm25_step split: option.splits)

lemma vector_of_bm25_loop: "vector_of (bm25_loop r B d) i = vector_of d i"
  by (induction B arbitrary: r d) (auto simp: vector_of_bm25_step)

lemma vector_of_vector_loop:
  "vector_of (vector_loop r V d) i =
     (case last_rank_from r i (hit_ids V) of Some k \<Rightarrow> Some (rrf_score k) | None \<Rightarrow> vector_of d i)"
  by (induction V arbitrary: r d)
     (auto simp: hit_ids_def vector_of_vector_step split: option.splits)

lemma bm25_of_vector_loop: "bm25_of (vector_loop r V d) i = bm25_of d i"
  by (induction V arbitrary: r d) (auto simp: bm25_of_vector_step)

lemma bm25_of_doc_scores_of:
  "bm25_of (doc_scores_of B V) i = map_option rrf_score (last_rank_from 1 i (hit_ids B))"
proof -
  have "bm25_of [] i = None" by (simp add: bm25_of_def)
  then show ?thesis
    unfolding doc_scores_of_def bm25_of_vector_loop bm25_of_bm25_loop
    by (simp split: option.splits)
qed

lemma vector_of_doc_scores_of:
  "vector_of (doc_scores_of B V) i = map_option rrf_score (last_rank_from 1 i (hit_ids V))"
proof -
  have "vector_of [] i = None" by (simp add: vector_of_def)
  then show ?thesis
    unfolding doc_scores_of_def vector_of_vector_loop vector_of_bm25_loop
    by (simp split: option.splits)
qed

subsection \<open>The fused list\<close>

lemma doc_id_fuse_entry: "doc_id (fuse_entry a kv) = fst kv"
  by (simp add: fuse_entry_def Let_def)

lemma ids_fused_unsorted:
  "map doc_id (fused_unsorted B V a) = first_seen (hit_ids B @ hit_ids V)"
proof -
  have "map doc_id (fused_unsorted B V a) = map fst (doc_scores_of B V)"
    by (simp add: fused_unsorted_def doc_id_fuse_entry)
  then show ?thesis by (simp only: keys_doc_scores_of)
qed

lemma set_hybrid_fusion: "set (hybrid_fusion B V a) = set (fused_unsorted B V a)"
  by (simp add: hybrid_fusion_def sort_reverse_def)

lemma distinct_map_insort_key:
  "distinct (map f (insort_key g x xs)) = (f x \<notin> f ` set xs \<and> distinct (map f xs))"
  by (induction xs) (auto simp: set_insort_key)

lemma distinct_map_sort_key: "distinct (map f (sort_key g xs)) = distinct (map f xs)"
  by (induction xs) (simp_all add: distinct_map_insort_key)

lemma set_map_sort_key: "set (map f (sort_key g xs)) = set (map f xs)"
  by simp

lemma ids_hybrid_fusion_set:
  "set (map doc_id (hybrid_fusion B V a)) = set (hit_ids B) \<union> set (hit_ids V)"
proof -
  have "set (map doc_id (hybrid_fusion B V a)) = set (map doc_id (fused_unsorted B V a))"
    by (simp add: hybrid_fusion_def sort_reverse_def)
  also have "\<dots> = set (hit_ids B @ hit_ids V)"
    by (simp only: ids_fused_unsorted set_first_seen)
  finally show ?thesis by simp
qed

lemma ids_hybrid_fusion_distinct: "distinct (map doc_id (hybrid_fusion B V a))"
proof -
  have "distinct (map doc_id (fused_unsorted B V a))"
    by (simp only: ids_fused_unsorted distinct_first_seen)
  then show ?thesis
    by (simp only: hybrid_fusion_def sort_reverse_def distinct_map_sort_key)
qed

lemma fused_entry_scores:
  assumes "e \<in> set (hybrid_fusion B V a)"
  shows "bm25_score e =
           (case last_rank_from 1 (doc_id e) (hit_ids B) of None \<Rightarrow> 0 | Some k \<Rightarrow> rrf_score k)"
    and "vector_score e =
           (case last_rank_from 1 (doc_id e) (hit_ids V) of None \<Rightarrow> 0 | Some k \<Rightarrow> rrf_score k)"
    and "hybrid_score e = a * bm25_score e + (1 - a) * vector_score e"
proof -
  let ?D = "doc_scores_of B V"
  from assms obtain kv where kv: "kv \<in> set ?D" and e: "e = fuse_entry a kv"
    by (auto simp: set_hybrid_fusion fused_unsorted_def)
  have "distinct (map fst ?D)"
    by (simp only: keys_doc_scores_of distinct_first_seen)
  with kv have m: "map_of ?D (fst kv) = Some (snd kv)"
    by simp
  have b: "entry_bm25_score (snd kv) = bm25_of ?D (fst kv)"
    and v: "entry_vector_score (snd kv) = vector_of ?D (fst kv)"
    by (simp_all add: bm25_of_def vector_of_def m)
  show "bm25_score e =
           (case last_rank_from 1 (doc_id e) (hit_ids B) of None \<Rightarrow> 0 | Some k \<Rightarrow> rrf_score k)"
    by (simp add: e fuse_entry_def Let_def b bm25_of_doc_scores_of split: option.splits)
  show "vector_score e =
           (case last_rank_from 1 (doc_id e) (hit_ids V) of None \<Rightarrow> 0 | Some k \<Rightarrow> rrf_score k)"
    by (simp add: e fuse_entry_def Let_def v vector_of_doc_scores_of split: option.splits)
  show "hybrid_score e = a * bm25_score e + (1 - a) * vector_score e"
    by (simp add: e fuse_entry_def Let_def)
qed

lemma last_rank_from_None: "x \<notin> set xs \<Longrightarrow> last_rank_from r x xs = None"
  by (induction xs arbitrary: r) auto

lemma first_rank_from_None: "x \<notin> set xs \<Longrightarrow> first_rank_from r x xs = None"
  by (induction xs arbitrary: r) auto

lemma last_rank_from_Some: "x \<in> set xs \<Longrightarrow> \<exists>k. last_rank_from r x xs = Some k \<and> r \<le> k"
proof (induction xs arbitrary: r)
  case Nil
  then show ?case by simp
next
  case (Cons y ys)
  show ?case
  proof (cases "x \<in> set ys")
    case True
    from Cons.IH [OF True, of "Suc r"] show ?thesis by auto
  next
    case False
    with Cons.prems show ?thesis by (simp add: last_rank_from_None)
  qed
qed

lemma last_rank_from_distinct:
  "distinct xs \<Longrightarrow> last_rank_from r x xs = first_rank_from r x xs"
  by (induction xs arbitrary: r)
     (auto simp: last_rank_from_None first_rank_from_None split: option.splits)

lemma duplicate_ranks:
  "1 < count_list xs x \<Longrightarrow>
     \<exists>f k. first_rank_from r x xs = Some f \<and> last_rank_from r x xs = Some k \<and> f < k"
proof (induction xs arbitrary: r)
  case Nil
  then show ?case by simp
next
  case (Cons y ys)
  show ?case
  proof (cases "y = x")
    case True
    with Cons.prems have "0 < count_list ys x" by simp
    then have "x \<in> set ys" using count_list_0_iff [of ys x] by auto
    from last_rank_from_Some [OF this, of "Suc r"] True show ?thesis by auto
  next
    case False
    with Cons.prems have "1 < count_list ys x" by simp
    from Cons.IH [OF this, of "Suc r"] False show ?thesis by auto
  qed
qed

lemma rrf_score_pos: "0 < rrf_score k"
  by (simp add: rrf_score_def add_pos_nonneg)

lemma length_filter_distinct_map:
  "distinct (map f xs) \<Longrightarrow>
     length (filter (\<lambda>e. f e = i) xs) = (if i \<in> f ` set xs then 1 else 0)"
  by (induction xs) auto

text \<open>
  Claim C2 as stated: an identifier that occurs more than once in one input list is
  scored at its first-seen rank. The loop assigns the score at every occurrence, so the
  score of the last occurrence stays. With the BM25 list \<open>[a, b, a]\<close> the identifier
  \<open>a\<close> (first seen at rank 1) ends with \<open>1/63\<close>, the score of rank 3, and not
  with \<open>1/61\<close>; it even falls behind \<open>b\<close> in the output.
\<close>

theorem duplicate_first_rank_counterexample:
  "count_list (hit_ids [example_hit ''a'', example_hit ''b'', example_hit ''a'']) ''a'' = 2
   \<and> first_rank_from 1 ''a'' (hit_ids [example_hit ''a'', example_hit ''b'', example_hit ''a'']) = Some 1
   \<and> map doc_id (hybrid_fusion [example_hit ''a'', example_hit ''b'', example_hit ''a''] [] (1/2))
       = [''b'', ''a'']
   \<and> map bm25_score (hybrid_fusion [example_hit ''a'', example_hit ''b'', example_hit ''a''] [] (1/2))
       = [1 / 62, 1 / 63]
   \<and> (1 / 63 :: rat) \<noteq> 1 / (60 + 1)"
  by (simp add: hybrid_fusion_def sort_reverse_def fused_unsorted_def doc_scores_of_def
      bm25_step_def fuse_entry_def dict_get_def rrf_score_def example_hit_def hit_ids_def
      new_entry_def Let_def)

text \<open>
  Claim C2, amended: an identifier that occurs more than once in one input list has a
  first and a strictly later last rank in that list, and every output entry with that
  identifier carries, as its score for that list, \<open>1/(60 + last rank)\<close>: a later
  occurrence replaces the score, nothing is summed. There is exactly one output entry
  for each identifier of the inputs.
\<close>

theorem duplicate_last_rank:
  "(1 < count_list (hit_ids B) i \<longrightarrow>
      (\<exists>f k. first_rank_from 1 i (hit_ids B) = Some f \<and> last_rank_from 1 i (hit_ids B) = Some k
         \<and> f < k
         \<and> (\<forall>e \<in> set (hybrid_fusion B V a). doc_id e = i \<longrightarrow> bm25_score e = 1 / (60 + of_nat k))))
   \<and> (1 < count_list (hit_ids V) i \<longrightarrow>
      (\<exists>f k. first_rank_from 1 i (hit_ids V) = Some f \<and> last_rank_from 1 i (hit_ids V) = Some k
         \<and> f < k
         \<and> (\<forall>e \<in> set (hybrid_fusion B V a). doc_id e = i \<longrightarrow> vector_score e = 1 / (60 + of_nat k))))
   \<and> (i \<in> set (hit_ids B) \<union> set (hit_ids V) \<longrightarrow>
        length (filter (\<lambda>e. doc_id e = i) (hybrid_fusion B V a)) = 1)"
proof (intro conjI impI)
  assume "1 < count_list (hit_ids B) i"
  from duplicate_ranks [OF this, of 1] obtain f k
    where fk: "first_rank_from 1 i (hit_ids B) = Some f" "last_rank_from 1 i (hit_ids B) = Some k" "f < k"
    by blast
  have "\<forall>e \<in> set (hybrid_fusion B V a). doc_id e = i \<longrightarrow> bm25_score e = 1 / (60 + of_nat k)"
    using fk(2) by (auto simp: fused_entry_scores(1) rrf_score_def)
  with fk show "\<exists>f k. first_rank_from 1 i (hit_ids B) = Some f \<and> last_rank_from 1 i (hit_ids B) = Some k
         \<and> f < k
         \<and> (\<forall>e \<in> set (hybrid_fusion B V a). doc_id e = i \<longrightarrow> bm25_score e = 1 / (60 + of_nat k))"
    by blast
next
  assume "1 < count_list (hit_ids V) i"
  from duplicate_ranks [OF this, of 1] obtain f k
    where fk: "first_rank_from 1 i (hit_ids V) = Some f" "last_rank_from 1 i (hit_ids V) = Some k" "f < k"
    by blast
  have "\<forall>e \<in> set (hybrid_fusion B V a). doc_id e = i \<longrightarrow> vector_score e = 1 / (60 + of_nat k)"
    using fk(2) by (auto simp: fused_entry_scores(2) rrf_score_def)
  with fk show "\<exists>f k. first_rank_from 1 i (hit_ids V) = Some f \<and> last_rank_from 1 i (hit_ids V) = Some k
         \<and> f < k
         \<and> (\<forall>e \<in> set (hybrid_fusion B V a). doc_id e = i \<longrightarrow> vector_score e = 1 / (60 + of_nat k))"
    by blast
next
  assume "i \<in> set (hit_ids B) \<union> set (hit_ids V)"
  then have "i \<in> doc_id ` set (hybrid_fusion B V a)"
    using ids_hybrid_fusion_set [of B V a] by simp
  then show "length (filter (\<lambda>e. doc_id e = i) (hybrid_fusion B V a)) = 1"
    by (simp add: length_filter_distinct_map [OF ids_hybrid_fusion_distinct])
qed

text \<open>
  Claim C3: the identifiers of the fused output are exactly those of the two inputs,
  no identifier occurs in two output entries, an identifier present in both inputs has
  both scores non-zero, and an identifier missing from a list has score 0 for that list.
\<close>

theorem fusion_complete:
  "set (map doc_id (hybrid_fusion B V a)) = set (hit_ids B) \<union> set (hit_ids V)
   \<and> distinct (map doc_id (hybrid_fusion B V a))
   \<and> (\<forall>e \<in> set (hybrid_fusion B V a).
        (doc_id e \<in> set (hit_ids B) \<and> doc_id e \<in> set (hit_ids V)
           \<longrightarrow> bm25_score e \<noteq> 0 \<and> vector_score e \<noteq> 0)
      \<and> (doc_id e \<notin> set (hit_ids B) \<longrightarrow> bm25_score e = 0)
      \<and> (doc_id e \<notin> set (hit_ids V) \<longrightarrow> vector_score e = 0))"
proof (intro conjI ballI impI)
  show "set (map doc_id (hybrid_fusion B V a)) = set (hit_ids B) \<union> set (hit_ids V)"
    by (rule ids_hybrid_fusion_set)
  show "distinct (map doc_id (hybrid_fusion B V a))"
    by (rule ids_hybrid_fusion_distinct)
next
  fix e assume e: "e \<in> set (hybrid_fusion B V a)"
    and "doc_id e \<in> set (hit_ids B) \<and> doc_id e \<in> set (hit_ids V)"
  then obtain k where "last_rank_from 1 (doc_id e) (hit_ids B) = Some k"
    using last_rank_from_Some [of "doc_id e" "hit_ids B" 1] by blast
  then show "bm25_score e \<noteq> 0"
    using rrf_score_pos [of k] by (simp add: fused_entry_scores(1) [OF e])
next
  fix e assume e: "e \<in> set (hybrid_fusion B V a)"
    and "doc_id e \<in> set (hit_ids B) \<and> doc_id e \<in> set (hit_ids V)"
  then obtain k where "last_rank_from 1 (doc_id e) (hit_ids V) = Some k"
    using last_rank_from_Some [of "doc_id e" "hit_ids V" 1] by blast
  then show "vector_score e \<noteq> 0"
    using rrf_score_pos [of k] by (simp add: fused_entry_scores(2) [OF e])
next
  fix e assume e: "e \<in> set (hybrid_fusion B V a)" and "doc_id e \<notin> set (hit_ids B)"
  then show "bm25_score e = 0"
    by (simp add: fused_entry_scores(1) [OF e] last_rank_from_None)
next
  fix e assume e: "e \<in> set (hybrid_fusion B V a)" and "doc_id e \<notin> set (hit_ids V)"
  then show "vector_score e = 0"
    by (simp add: fused_entry_scores(2) [OF e] last_rank_from_None)
qed

text \<open>The definitions unfolded to evaluate fusion on concrete lists.\<close>

lemmas fusion_eval_defs =
  hybrid_fusion_def sort_reverse_def fused_unsorted_def doc_scores_of_def
  bm25_step_def vector_step_def fuse_entry_def dict_get_def rrf_score_def example_hit_def
  hit_ids_def new_entry_def Let_def

theorem duplicate_last_rank_witness:
  "1 < count_list (hit_ids [example_hit ''a'', example_hit ''b'', example_hit ''a'']) ''a''
   \<and> last_rank_from 1 ''a'' (hit_ids [example_hit ''a'', example_hit ''b'', example_hit ''a'']) = Some 3
   \<and> map bm25_score (filter (\<lambda>e. doc_id e = ''a'')
         (hybrid_fusion [example_hit ''a'', example_hit ''b'', example_hit ''a''] [] (1/2)))
       = [1 / (60 + of_nat 3)]"
  using duplicate_last_rank [of "[example_hit ''a'', example_hit ''b'', example_hit ''a'']" "''a''" "[]" "1/2"]
  by (simp add: fusion_eval_defs)

theorem fusion_complete_witness:
  "set (map doc_id (hybrid_fusion [example_hit ''a'', example_hit ''b''] [example_hit ''b'', example_hit ''c''] (1/2)))
     = {''a'', ''b'', ''c''}
   \<and> map doc_id (hybrid_fusion [example_hit ''a'', example_hit ''b''] [example_hit ''b'', example_hit ''c''] (1/2))
       = [''b'', ''a'', ''c'']
   \<and> map bm25_score (hybrid_fusion [example_hit ''a'', example_hit ''b''] [example_hit ''b'', example_hit ''c''] (1/2))
       = [1 / 62, 1 / 61, 0]
   \<and> map vector_score (hybrid_fusion [example_hit ''a'', example_hit ''b''] [example_hit ''b'', example_hit ''c''] (1/2))
       = [1 / 61, 0, 1 / 62]"
  using fusion_complete [of "[example_hit ''a'', example_hit ''b'']" "[example_hit ''b'', example_hit ''c'']" "1/2"]
  by (auto simp add: fusion_eval_defs)

subsection \<open>Ranks, sorting and stability\<close>

lemma first_rank_from_nth:
  "distinct xs \<Longrightarrow> p < length xs \<Longrightarrow> first_rank_from r (xs ! p) xs = Some (r + p)"
proof (induction xs arbitrary: r p)
  case Nil
  then show ?case by simp
next
  case (Cons y ys)
  show ?case
  proof (cases p)
    case 0
    then show ?thesis by simp
  next
    case (Suc q)
    with Cons.prems have "q < length ys" and "distinct ys" and "ys ! q \<noteq> y"
      by auto
    with Cons.IH [of q "Suc r"] Suc show ?thesis by simp
  qed
qed




lemma sort_reverse_id:
  "sorted_wrt (\<lambda>x y. key x \<ge> key y) xs \<Longrightarrow> sort_reverse key xs = xs"
  unfolding sort_reverse_def by (rule sort_key_id_if_sorted) (simp add: sorted_map)

lemma rrf_score_antimono: "i \<le> j \<Longrightarrow> rrf_score j \<le> rrf_score i"
  by (simp add: rrf_score_def frac_le)





text \<open>
  Claim C9 as stated, for every list \<open>A\<close>: with \<open>A = [a, b, a]\<close> the output order is
  \<open>[b, a]\<close>, which is neither the order of \<open>A\<close> nor its first-seen order
  \<open>[a, b]\<close>: the second occurrence of \<open>a\<close> lowers its score below that of \<open>b\<close>.
\<close>

theorem fusion_boundary_counterexample:
  "hit_ids [example_hit ''a'', example_hit ''b'', example_hit ''a''] = [''a'', ''b'', ''a'']
   \<and> first_seen (hit_ids [example_hit ''a'', example_hit ''b'', example_hit ''a'']) = [''a'', ''b'']
   \<and> map doc_id (hybrid_fusion [example_hit ''a'', example_hit ''b'', example_hit ''a''] [] 1)
       = [''b'', ''a'']
   \<and> map doc_id (hybrid_fusion [example_hit ''a'', example_hit ''b'', example_hit ''a''] [] 1)
       \<noteq> hit_ids [example_hit ''a'', example_hit ''b'', example_hit ''a'']
   \<and> map doc_id (hybrid_fusion [example_hit ''a'', example_hit ''b'', example_hit ''a''] [] 1)
       \<noteq> first_seen (hit_ids [example_hit ''a'', example_hit ''b'', example_hit ''a''])"
  by (simp add: fusion_eval_defs)

text \<open>
  Claim C9, amended: fusing two empty lists yields the empty list for every weight, and
  for every duplicate-free list \<open>A\<close>, fusing \<open>A\<close> with the empty list at weight 1
  yields the identifiers of \<open>A\<close> in their rank order.
\<close>

theorem fusion_boundary:
  "hybrid_fusion [] [] w = []
   \<and> (distinct (hit_ids A) \<longrightarrow> map doc_id (hybrid_fusion A [] 1) = hit_ids A)"
proof (intro conjI impI)
  show "hybrid_fusion [] [] w = []"
    by (simp add: hybrid_fusion_def sort_reverse_def fused_unsorted_def doc_scores_of_def)
next
  assume dA: "distinct (hit_ids A)"
  let ?U = "fused_unsorted A [] 1"
  have ids: "map doc_id ?U = hit_ids A"
    using dA by (simp add: ids_fused_unsorted hit_ids_def first_seen_distinct)
  then have len: "length ?U = length (hit_ids A)"
    by (metis length_map)
  have score: "hybrid_score (?U ! p) = rrf_score (1 + p)" if p: "p < length ?U" for p
  proof -
    from p have e: "?U ! p \<in> set (hybrid_fusion A [] 1)"
      by (simp add: set_hybrid_fusion)
    from p ids have i: "doc_id (?U ! p) = hit_ids A ! p"
      by (metis nth_map)
    from p len dA have "last_rank_from 1 (doc_id (?U ! p)) (hit_ids A) = Some (1 + p)"
      by (simp add: i last_rank_from_distinct first_rank_from_nth)
    with fused_entry_scores [OF e] show ?thesis by simp
  qed
  have "sorted_wrt (\<lambda>x y. hybrid_score x \<ge> hybrid_score y) ?U"
    unfolding sorted_wrt_iff_nth_less
    by (auto simp: score rrf_score_antimono)
  then have "hybrid_fusion A [] 1 = ?U"
    unfolding hybrid_fusion_def by (rule sort_reverse_id)
  with ids show "map doc_id (hybrid_fusion A [] 1) = hit_ids A" by simp
qed

theorem fusion_boundary_witness:
  "distinct (hit_ids [example_hit ''a'', example_hit ''b'', example_hit ''c''])
   \<and> map doc_id (hybrid_fusion [example_hit ''a'', example_hit ''b'', example_hit ''c''] [] 1)
       = [''a'', ''b'', ''c'']
   \<and> hybrid_fusion [] [] (1 / 3) = []"
  using fusion_boundary [of "1 / 3" "[example_hit ''a'', example_hit ''b'', example_hit ''c'']"]
  by (simp add: fusion_eval_defs)

declare attempt_from.simps [simp del]

section \<open>Properties of the retry loop\<close>

lemma execute_activity_unfold:
  "execute_activity retry_policy act =
     (case act 1 of
        Returned v \<Rightarrow> \<lparr>ex_result = Returned v, ex_attempts = 1, ex_delays = []\<rparr>
      | Raised e1 \<Rightarrow>
          (case act 2 of
             Returned v \<Rightarrow> \<lparr>ex_result = Returned v, ex_attempts = 2, ex_delays = [1]\<rparr>
           | Raised e2 \<Rightarrow>
               (case act 3 of
                  Returned v \<Rightarrow> \<lparr>ex_result = Returned v, ex_attempts = 3, ex_delays = [1, 2]\<rparr>
                | Raised e3 \<Rightarrow> \<lparr>ex_result = Raised e3, ex_attempts = 3, ex_delays = [1, 2]\<rparr>)))"
proof -
  have three: "attempt_from retry_policy act 3 =
      (case act 3 of
         Returned v \<Rightarrow> \<lparr>ex_result = Returned v, ex_attempts = 3, ex_delays = []\<rparr>
       | Raised e \<Rightarrow> \<lparr>ex_result = Raised e, ex_attempts = 3, ex_delays = []\<rparr>)"
    by (subst attempt_from.simps) (simp add: retry_policy_def split: outcome.splits)
  have two: "attempt_from retry_policy act 2 =
      (case act 2 of
         Returned v \<Rightarrow> \<lparr>ex_result = Returned v, ex_attempts = 2, ex_delays = []\<rparr>
       | Raised e \<Rightarrow>
           (attempt_from retry_policy act 3)
             \<lparr>ex_delays := 2 # ex_delays (attempt_from retry_policy act 3)\<rparr>)"
    by (subst attempt_from.simps)
       (simp add: retry_policy_def retry_delay_def Let_def eval_nat_numeral split: outcome.splits)
  have one: "attempt_from retry_policy act 1 =
      (case act 1 of
         Returned v \<Rightarrow> \<lparr>ex_result = Returned v, ex_attempts = 1, ex_delays = []\<rparr>
       | Raised e \<Rightarrow>
           (attempt_from retry_policy act 2)
             \<lparr>ex_delays := 1 # ex_delays (attempt_from retry_policy act 2)\<rparr>)"
    by (subst attempt_from.simps)
       (simp add: retry_policy_def retry_delay_def Let_def eval_nat_numeral split: outcome.splits)
  show ?thesis
    unfolding execute_activity_def one two three
    by (simp split: outcome.splits)
qed











section \<open>Properties of the orchestrator\<close>

lemma save_never_raises:
  "execute_activity retry_policy (\<lambda>n. Returned x)
     = \<lparr>ex_result = Returned x, ex_attempts = 1, ex_delays = []\<rparr>"
  by (simp add: execute_activity_unfold)









text \<open>The definitions unfolded to evaluate the workflow on a concrete pipeline.\<close>

lemmas workflow_eval_defs =
  ResearchWorkflow_run_def stage2_def stage3_def save_and_return_def Let_def
  example_env_def example_output_def example_request_def example_db_def example_save_data_def
  execute_activity_unfold activity_call_def failed_result_def completed_result_def
  list_repr_def agent2_input_def agent3_input_def save_input_def dict_get_def
  save_research_result_activity_def update_request_def


text \<open>
  Claim C6: in a run where stage 2 is reached (stage 1 returned without errors) and
  returns an output with a non-empty error list, the workflow returns the FAILED status
  with the message \<open>"Retriever+Summarizer Agent failed: "\<close> followed by the error list,
  the only activity calls made are those of stages 1 and 2, and in particular the stage 3
  activity is never invoked.
\<close>

theorem stage2_failure_short_circuits:
  assumes "ex_result (execute_activity retry_policy (run_query_filter_activity env request))
             = Returned out1"
    and "errors out1 = []"
    and "ex_result (execute_activity retry_policy
             (run_retriever_summarizer_activity env (agent2_input request out1))) = Returned out2"
    and "errors out2 \<noteq> []"
  shows "wf_result (ResearchWorkflow_run env request db)
           = Returned [(''status'', PStr ''failed''),
                       (''error'', PStr (''Retriever+Summarizer Agent failed: ''
                                         @ list_repr (str_repr env) (errors out2)))]
       \<and> map call_activity (wf_calls (ResearchWorkflow_run env request db))
           = [QueryFilter, RetrieverSummarizer]
       \<and> FactCheckWriter \<notin> call_activity ` set (wf_calls (ResearchWorkflow_run env request db))
       \<and> SaveResearchResult \<notin> call_activity ` set (wf_calls (ResearchWorkflow_run env request db))
       \<and> wf_db (ResearchWorkflow_run env request db) = db"
  using assms
  by (simp add: ResearchWorkflow_run_def stage2_def Let_def failed_result_def activity_call_def)

theorem stage2_failure_short_circuits_witness:
  "ex_result (execute_activity retry_policy
      (run_query_filter_activity (example_env [] [''no documents''] []) example_request))
     = Returned (example_output ''QueryFilterAgent''
         [(''expansion'', PDict [(''expanded_queries'', PList [PStr ''q''])])] [])
   \<and> errors (example_output ''RetrieverSummarizerAgent''
         [(''retrieved_documents'', PList []), (''summary'', PDict [])] [''no documents'']) \<noteq> []
   \<and> wf_result (ResearchWorkflow_run (example_env [] [''no documents''] []) example_request example_db)
       = Returned [(''status'', PStr ''failed''),
                   (''error'', PStr (''Retriever+Summarizer Agent failed: [''
                                     @ [CHR 0x27] @ ''no documents'' @ [CHR 0x27] @ '']''))]
   \<and> map call_activity
         (wf_calls (ResearchWorkflow_run (example_env [] [''no documents''] []) example_request example_db))
       = [QueryFilter, RetrieverSummarizer]"
proof -
  let ?env = "example_env [] [''no documents''] []"
  let ?out1 = "example_output ''QueryFilterAgent''
         [(''expansion'', PDict [(''expanded_queries'', PList [PStr ''q''])])] []"
  let ?out2 = "example_output ''RetrieverSummarizerAgent''
         [(''retrieved_documents'', PList []), (''summary'', PDict [])] [''no documents'']"
  have h1: "ex_result (execute_activity retry_policy (run_query_filter_activity ?env example_request))
              = Returned ?out1"
    by (simp add: execute_activity_unfold example_env_def)
  have h2: "errors ?out1 = []" by (simp add: example_output_def)
  have h3: "ex_result (execute_activity retry_policy
              (run_retriever_summarizer_activity ?env (agent2_input example_request ?out1)))
              = Returned ?out2"
    by (simp add: execute_activity_unfold example_env_def)
  have h4: "errors ?out2 \<noteq> []" by (simp add: example_output_def)
  have repr: "list_repr (str_repr ?env) (errors ?out2)
                = ''['' @ [CHR 0x27] @ ''no documents'' @ [CHR 0x27] @ '']''"
    by (simp add: list_repr_def example_env_def example_output_def)
  from stage2_failure_short_circuits [OF h1 h2 h3 h4, of example_db] h1 h4 repr
  show ?thesis by simp
qed

text \<open>
  No run that returns the FAILED status has called the save activity or changed the
  table, whichever stage failed.
\<close>

lemma failed_run_never_saves:
  assumes "wf_result (ResearchWorkflow_run env request db) = Returned res"
    and "dict_get res ''status'' PNone = PStr ''failed''"
  shows "SaveResearchResult \<notin> call_activity ` set (wf_calls (ResearchWorkflow_run env request db))
         \<and> wf_db (ResearchWorkflow_run env request db) = db"
  using assms
  by (auto simp: ResearchWorkflow_run_def stage2_def stage3_def save_and_return_def Let_def
        activity_call_def failed_result_def completed_result_def dict_get_def save_never_raises
      split: outcome.splits if_splits)

text \<open>
  Claim C1 on the code: a run whose first stage returns an error list. The workflow
  returns the FAILED outcome and skips the remaining stages, but it also skips the save
  activity: the only call made is that of stage 1 and the request's record keeps the
  status \<open>"processing"\<close>. The same request on a pipeline without errors ends with the
  save activity and the status \<open>"completed"\<close>.
\<close>

theorem failed_outcome_not_persisted:
  "wf_result (ResearchWorkflow_run (example_env [''LLM unavailable''] [] []) example_request example_db)
     = Returned [(''status'', PStr ''failed''),
                 (''error'', PStr (''Query+Filter Agent failed: [''
                                   @ [CHR 0x27] @ ''LLM unavailable'' @ [CHR 0x27] @ '']''))]
   \<and> map call_activity
         (wf_calls (ResearchWorkflow_run (example_env [''LLM unavailable''] [] []) example_request example_db))
       = [QueryFilter]
   \<and> wf_db (ResearchWorkflow_run (example_env [''LLM unavailable''] [] []) example_request example_db)
       = example_db
   \<and> map row_status
         (wf_db (ResearchWorkflow_run (example_env [''LLM unavailable''] [] []) example_request example_db))
       = [PStr ''processing'']
   \<and> map call_activity
         (wf_calls (ResearchWorkflow_run (example_env [] [] []) example_request example_db))
       = [QueryFilter, RetrieverSummarizer, FactCheckWriter, SaveResearchResult]
   \<and> map row_status
         (wf_db (ResearchWorkflow_run (example_env [] [] []) example_request example_db))
       = [PStr ''completed'']"
  by (simp add: workflow_eval_defs)

section \<open>Properties of persistence\<close>

lemma row_id_update_request: "row_id (update_request env r row) = row_id row"
  by (simp add: update_request_def)

lemma update_request_twice:
  "update_request env2 r (update_request env1 r row) = update_request env2 r row"
  by (simp add: update_request_def split: option.splits)

lemma save_exception:
  "db_exception env = Some e \<Longrightarrow> fst (save_research_result_activity env data db) = db"
  by (simp add: save_research_result_activity_def)

lemma save_committed:
  assumes "db_exception env = None" and "dict_get data ''result'' (PDict []) = PDict r"
  shows "fst (save_research_result_activity env data db)
           = map (\<lambda>row. if PStr (row_id row) = dict_get data ''request_id'' PNone
                        then update_request env r row else row) db"
proof (cases "find (\<lambda>row. PStr (row_id row) = dict_get data ''request_id'' PNone) db")
  case None
  then have "\<forall>row \<in> set db. PStr (row_id row) \<noteq> dict_get data ''request_id'' PNone"
    by (simp add: find_None_iff)
  then have "map (\<lambda>row. if PStr (row_id row) = dict_get data ''request_id'' PNone
                        then update_request env r row else row) db = db"
    by (simp add: map_idI)
  with None assms show ?thesis
    by (simp add: save_research_result_activity_def Let_def)
next
  case (Some x)
  then have "PStr (row_id x) = dict_get data ''request_id'' PNone"
    by (auto simp: find_Some_iff)
  then have "(row_id row = row_id x) = (PStr (row_id row) = dict_get data ''request_id'' PNone)"
    for row :: research_request by (metis pyval.inject(4))
  with Some assms show ?thesis
    by (simp add: save_research_result_activity_def Let_def)
qed

lemma save_not_dict:
  assumes "\<forall>r. dict_get data ''result'' (PDict []) \<noteq> PDict r"
  shows "fst (save_research_result_activity env data db) = db"
  using assms
  by (cases "dict_get data ''result'' (PDict [])")
     (simp_all add: save_research_result_activity_def Let_def split: option.splits)

lemma save_keeps_ids: "map row_id (fst (save_research_result_activity env data db)) = map row_id db"
proof (cases "db_exception env")
  case (Some e)
  then show ?thesis by (simp add: save_exception)
next
  case None
  show ?thesis
  proof (cases "\<exists>r. dict_get data ''result'' (PDict []) = PDict r")
    case True
    then obtain r where "dict_get data ''result'' (PDict []) = PDict r" by blast
    from save_committed [OF None this, of db] show ?thesis
      by (simp add: row_id_update_request o_def cong: map_cong)
  next
    case False
    then show ?thesis by (simp add: save_not_dict)
  qed
qed

lemma save_twice:
  assumes "db_exception env2 = None"
  shows "fst (save_research_result_activity env2 data (fst (save_research_result_activity env1 data db)))
           = fst (save_research_result_activity env2 data db)"
proof (cases "db_exception env1")
  case (Some e)
  then show ?thesis by (simp add: save_exception)
next
  case None
  show ?thesis
  proof (cases "\<exists>r. dict_get data ''result'' (PDict []) = PDict r")
    case True
    then obtain r where r: "dict_get data ''result'' (PDict []) = PDict r" by blast
    show ?thesis
      unfolding save_committed [OF None r] save_committed [OF assms r]
      by (simp add: row_id_update_request update_request_twice)
  next
    case False
    then show ?thesis by (simp add: save_not_dict)
  qed
qed

lemma count_by_ids:
  "length (filter (\<lambda>row. f row = i) xs) = count_list (map f xs) i"
  by (induction xs) auto

text \<open>
  Claim C8, amended: persisting the same request identifier and outcome twice never
  inserts or removes a record, so every identifier has as many records afterwards as
  before (exactly one if it had one, none if it had none). When the second call does
  not meet a database exception, the table is the one a single latest call produces:
  the records with that identifier hold the latest call's status, brief and completion
  time, and every other record is unchanged.
\<close>

theorem persist_twice:
  "map row_id (fst (save_research_result_activity env2 data
                      (fst (save_research_result_activity env1 data db)))) = map row_id db
   \<and> (\<forall>i. count_list (map row_id (fst (save_research_result_activity env2 data
                      (fst (save_research_result_activity env1 data db))))) i
          = count_list (map row_id db) i)
   \<and> (db_exception env2 = None \<longrightarrow>
        fst (save_research_result_activity env2 data (fst (save_research_result_activity env1 data db)))
          = fst (save_research_result_activity env2 data db))
   \<and> (db_exception env2 = None \<longrightarrow>
        (\<forall>r. dict_get data ''result'' (PDict []) = PDict r \<longrightarrow>
           fst (save_research_result_activity env2 data (fst (save_research_result_activity env1 data db)))
             = map (\<lambda>row. if PStr (row_id row) = dict_get data ''request_id'' PNone
                          then row\<lparr>row_status := dict_get r ''status'' (PStr ''completed''),
                                   row_brief_data := dict_get r ''brief'' PNone,
                                   row_completed_at := Some (utcnow_first env2),
                                   row_processing_time_seconds :=
                                     (case row_created_at row of
                                        Some created \<Rightarrow> Some (utcnow_second env2 - created)
                                      | None \<Rightarrow> row_processing_time_seconds row)\<rparr>
                          else row) db))"
proof (intro conjI allI impI)
  show ids: "map row_id (fst (save_research_result_activity env2 data
                      (fst (save_research_result_activity env1 data db)))) = map row_id db"
    by (simp only: save_keeps_ids)
  fix i
  show "count_list (map row_id (fst (save_research_result_activity env2 data
                      (fst (save_research_result_activity env1 data db))))) i
          = count_list (map row_id db) i"
    by (simp only: ids)
next
  assume "db_exception env2 = None"
  then show "fst (save_research_result_activity env2 data (fst (save_research_result_activity env1 data db)))
          = fst (save_research_result_activity env2 data db)"
    by (rule save_twice)
next
  fix r
  assume e: "db_exception env2 = None" and r: "dict_get data ''result'' (PDict []) = PDict r"
  show "fst (save_research_result_activity env2 data (fst (save_research_result_activity env1 data db)))
             = map (\<lambda>row. if PStr (row_id row) = dict_get data ''request_id'' PNone
                          then row\<lparr>row_status := dict_get r ''status'' (PStr ''completed''),
                                   row_brief_data := dict_get r ''brief'' PNone,
                                   row_completed_at := Some (utcnow_first env2),
                                   row_processing_time_seconds :=
                                     (case row_created_at row of
                                        Some created \<Rightarrow> Some (utcnow_second env2 - created)
                                      | None \<Rightarrow> row_processing_time_seconds row)\<rparr>
                          else row) db"
    unfolding save_twice [OF e] save_committed [OF e r]
    by (simp add: update_request_def)
qed

text \<open>
  Claim C8 as stated, exactly one record after the second call: for a request identifier
  that has no record, both calls report success and store nothing, so no record for it
  exists afterwards. The activity updates, it does not insert.
\<close>

theorem persist_unknown_request_counterexample:
  "fst (save_research_result_activity (save_environment (example_env [] [] [])) (example_save_data ''r2'')
     (fst (save_research_result_activity (save_environment (example_env [] [] []))
             (example_save_data ''r2'') example_db)))
     = example_db
   \<and> map row_id example_db = [''r1'']
   \<and> count_list (map row_id
        (fst (save_research_result_activity (save_environment (example_env [] [] []))
               (example_save_data ''r2'')
               (fst (save_research_result_activity (save_environment (example_env [] [] []))
                       (example_save_data ''r2'') example_db))))) ''r2'' = 0
   \<and> snd (save_research_result_activity (save_environment (example_env [] [] []))
            (example_save_data ''r2'') example_db) = [(''success'', PBool True)]"
  by (simp add: workflow_eval_defs)

theorem persist_twice_witness:
  "db_exception (save_environment (example_env [] [] [])) = None
   \<and> dict_get (example_save_data ''r1'') ''result'' (PDict [])
       = PDict [(''status'', PStr ''completed''), (''brief'', PStr ''brief'')]
   \<and> fst (save_research_result_activity (save_environment (example_env [] [] [])) (example_save_data ''r1'')
       (fst (save_research_result_activity
               \<lparr>utcnow_first = 90, utcnow_second = 91, db_exception = None\<rparr>
               (example_save_data ''r1'') example_db)))
     = [\<lparr>row_id = ''r1'', row_topic = ''diabetes management in elderly patients'',
         row_status = PStr ''completed'', row_created_at = Some 40, row_completed_at = Some 100,
         row_processing_time_seconds = Some 61, row_brief_data = PStr ''brief'', row_error = None\<rparr>]"
  using persist_twice [of "save_environment (example_env [] [] [])" "example_save_data ''r1''"
      "\<lparr>utcnow_first = 90, utcnow_second = 91, db_exception = None\<rparr>" example_db]
  by (simp add: workflow_eval_defs)

section \<open>Properties of the agents\<close>

lemma numeric_dict_set:
  "numeric v \<Longrightarrow> numeric_metrics ms \<Longrightarrow> numeric_metrics (dict_set k v ms)"
  by (induction ms) (auto simp: numeric_metrics_def)

lemma keeps_numeric_returns: "keeps_numeric (returns x)"
  by (simp add: keeps_numeric_def returns_def)

lemma keeps_numeric_call: "keeps_numeric (call r)"
  by (simp add: keeps_numeric_def call_def)

lemma keeps_numeric_set_metric: "numeric v \<Longrightarrow> keeps_numeric (set_metric k v)"
  by (simp add: keeps_numeric_def set_metric_def numeric_dict_set)

lemma keeps_numeric_and_then:
  "keeps_numeric m \<Longrightarrow> (\<And>x. keeps_numeric (f x)) \<Longrightarrow> keeps_numeric (and_then m f)"
  unfolding keeps_numeric_def and_then_def
  by (auto split: prod.splits outcome.splits)

lemma validate_numeric: "numeric_metrics ms \<Longrightarrow> validate_metrics pn ms \<noteq> None"
proof (induction ms)
  case Nil
  then show ?case by simp
next
  case (Cons kv ms)
  obtain k v where kv: "kv = (k, v)" by (cases kv)
  with Cons.prems have "numeric v" and "numeric_metrics ms"
    by (simp_all add: numeric_metrics_def)
  with Cons.IH kv show ?case by (cases v) auto
qed

text \<open>
  When every metric is a valid float, \<open>run\<close> returns an \<open>AgentOutput\<close>; its error list
  is non-empty exactly when the \<open>try\<close> block raised, and then it holds the message, which
  is also the \<open>"error"\<close> entry of \<open>output_data\<close>.
\<close>

lemma run_agent_returns:
  assumes "validate_metrics pn (snd (body [])) \<noteq> None"
  shows "\<exists>out. run_agent pn name start stop body = Returned out
           \<and> agent_name out = name
           \<and> (errors out \<noteq> [] \<longleftrightarrow> (\<exists>e. fst (body []) = Raised e))
           \<and> (\<forall>e. fst (body []) = Raised e \<longrightarrow>
                  errors out = [e] \<and> output_data out = [(''error'', PStr e)])
           \<and> (\<forall>data. fst (body []) = Returned data \<longrightarrow> errors out = [] \<and> output_data out = data)"
proof -
  obtain r ms where b: "body [] = (r, ms)" by (cases "body []")
  with assms obtain valid where "validate_metrics pn ms = Some valid" by auto
  with b show ?thesis
    by (cases r) (simp_all add: run_agent_def AgentOutput_def)
qed

lemma query_filter_body_numeric:
  "keeps_numeric (query_filter_body env topic max_sources mock)"
  unfolding query_filter_body_def
  by (intro keeps_numeric_and_then keeps_numeric_call keeps_numeric_set_metric
        keeps_numeric_returns)
     (auto split: option.splits list.splits
           intro!: keeps_numeric_and_then keeps_numeric_call keeps_numeric_set_metric
             keeps_numeric_returns)

lemma retriever_body_numeric: "keeps_numeric (retriever_body env topic rerank_top_k)"
  unfolding retriever_body_def
  by (intro keeps_numeric_and_then keeps_numeric_call keeps_numeric_set_metric
        keeps_numeric_returns) simp_all

lemma numeric_empty: "numeric_metrics []"
  by (simp add: numeric_metrics_def)

text \<open>
  \<open>QueryFilterAgent\<close> and \<open>RetrieverSummarizerAgent\<close> only store lengths and a ratio in
  \<open>metrics\<close>, so for them this holds on every input and for every behaviour of their
  collaborators.
\<close>

lemma QueryFilterAgent_run_returns:
  "\<exists>out. QueryFilterAgent_run env topic max_sources mock = Returned out
     \<and> agent_name out = ''QueryFilterAgent''
     \<and> (errors out \<noteq> [] \<longleftrightarrow> (\<exists>e. fst (query_filter_body env topic max_sources mock []) = Raised e))
     \<and> (\<forall>e. fst (query_filter_body env topic max_sources mock []) = Raised e \<longrightarrow>
            errors out = [e] \<and> output_data out = [(''error'', PStr e)])
     \<and> (\<forall>data. fst (query_filter_body env topic max_sources mock []) = Returned data \<longrightarrow>
            errors out = [] \<and> output_data out = data)"
proof -
  have "numeric_metrics (snd (query_filter_body env topic max_sources mock []))"
    using query_filter_body_numeric [of env topic max_sources mock] numeric_empty
    by (simp add: keeps_numeric_def)
  then have "validate_metrics (qf_parse_number env)
               (snd (query_filter_body env topic max_sources mock [])) \<noteq> None"
    by (rule validate_numeric)
  from run_agent_returns
      [where body = "query_filter_body env topic max_sources mock"
         and pn = "qf_parse_number env", OF this]
  show ?thesis
    unfolding QueryFilterAgent_run_def by blast
qed

lemma RetrieverSummarizerAgent_run_returns:
  "\<exists>out. RetrieverSummarizerAgent_run env topic rerank_top_k = Returned out
     \<and> agent_name out = ''RetrieverSummarizerAgent''
     \<and> (errors out \<noteq> [] \<longleftrightarrow> (\<exists>e. fst (retriever_body env topic rerank_top_k []) = Raised e))
     \<and> (\<forall>e. fst (retriever_body env topic rerank_top_k []) = Raised e \<longrightarrow>
            errors out = [e] \<and> output_data out = [(''error'', PStr e)])
     \<and> (\<forall>data. fst (retriever_body env topic rerank_top_k []) = Returned data \<longrightarrow>
            errors out = [] \<and> output_data out = data)"
proof -
  have "numeric_metrics (snd (retriever_body env topic rerank_top_k []))"
    using retriever_body_numeric [of env topic rerank_top_k] numeric_empty
    by (simp add: keeps_numeric_def)
  then have "validate_metrics (rs_parse_number env)
               (snd (retriever_body env topic rerank_top_k [])) \<noteq> None"
    by (rule validate_numeric)
  from run_agent_returns
      [where body = "retriever_body env topic rerank_top_k"
         and pn = "rs_parse_number env", OF this]
  show ?thesis
    unfolding RetrieverSummarizerAgent_run_def by blast
qed

lemma FactCheckWriterAgent_run_returns:
  assumes "validate_metrics (fcw_parse_number env)
             (snd (fact_check_body env topic retrieved_docs summary_data [])) \<noteq> None"
  shows "\<exists>out. FactCheckWriterAgent_run env topic retrieved_docs summary_data = Returned out
     \<and> agent_name out = ''FactCheckWriterAgent''
     \<and> (errors out \<noteq> [] \<longleftrightarrow>
          (\<exists>e. fst (fact_check_body env topic retrieved_docs summary_data []) = Raised e))"
  using run_agent_returns
      [where body = "fact_check_body env topic retrieved_docs summary_data"
         and pn = "fcw_parse_number env", OF assms]
  unfolding FactCheckWriterAgent_run_def by blast

text \<open>The definitions unfolded to evaluate \<open>FactCheckWriterAgent.run\<close> on a concrete run.\<close>

lemmas agent_eval_defs =
  FactCheckWriterAgent_run_def fact_check_body_def example_fact_check_env_def run_agent_def
  AgentOutput_def and_then_def call_def returns_def set_metric_def py_get_def py_len_def
  default_word_count_def research_brief_def dict_get_def

text \<open>
  Claim C10 on the code, for \<open>FactCheckWriterAgent\<close>: the language model answers with a
  brief whose \<open>word_count\<close> is \<open>null\<close>. The \<open>try\<close> block stores that value in
  \<open>metrics\<close>, later raises (the \<open>ResearchBrief\<close> validation) and the handler records
  the message; but \<open>AgentOutput\<close> is constructed after the handler, its \<open>metrics\<close>
  must be floats, and its \<open>ValidationError\<close> leaves \<open>run\<close>. With \<open>word_count = 5\<close>
  the same run returns an output without errors.
\<close>

theorem fact_check_writer_run_propagates:
  "fst (fact_check_body (example_fact_check_env PNone) (PStr ''diabetes'') [] (PDict []) [])
     = Raised ''validation error for ResearchBrief''
   \<and> snd (fact_check_body (example_fact_check_env PNone) (PStr ''diabetes'') [] (PDict []) [])
     = [(''word_count'', PNone), (''claims_count'', PInt 0), (''citations_count'', PInt 0),
        (''risk_flags_count'', PInt 0), (''traceability_entries'', PInt 0)]
   \<and> FactCheckWriterAgent_run (example_fact_check_env PNone) (PStr ''diabetes'') [] (PDict [])
     = Raised ''validation error for AgentOutput: metrics: Input should be a valid number''
   \<and> FactCheckWriterAgent_run (example_fact_check_env (PInt 5)) (PStr ''diabetes'') [] (PDict [])
     = Returned
         \<lparr>agent_name = ''FactCheckWriterAgent'',
          output_data =
            [(''research_brief'',
              PDict [(''executive_brief'', PStr ''Metformin remains first-line therapy.''),
                     (''word_count'', PInt 5), (''sources'', PList []), (''citations'', PList []),
                     (''risk_flags'', PList []), (''traceability'', PList []),
                     (''metadata'', PDict [(''topic'', PStr ''diabetes''),
                                           (''contradictions'', PList []),
                                           (''overall_quality'', PStr ''unknown'')])]),
             (''topic'', PStr ''diabetes'')],
          metrics = [(''word_count'', 5), (''claims_count'', 0), (''citations_count'', 0),
                     (''risk_flags_count'', 0), (''traceability_entries'', 0)],
          errors = [], execution_time_ms = 2000\<rparr>"
  by (simp add: agent_eval_defs)

end
